theory Spec2Isabelle
  imports Complex_Main "HOL-Library.Word" "HOL-Library.Sublist"
begin

section \<open>JavaScript strings and arrays\<close>

text \<open>
  A JavaScript string is a sequence of UTF-16 code units: \<open>length\<close>, \<open>substring\<close>,
  \<open>split\<close> and \<open>trim\<close> all count and cut code units. String literals of the source
  are ASCII and are written \<open>lit ''...''\<close>.
\<close>

type_synonym code_unit = "16 word"
type_synonym jsstring = "code_unit list"

definition lit :: "string \<Rightarrow> jsstring" where
  "lit s = map of_char s"

text \<open>
  \<open>String.prototype.trim\<close> removes WhiteSpace and LineTerminator code units
  (ECMAScript: TAB, VT, FF, SP, NBSP, ZWNBSP, the Unicode space separators, LF, CR, LS, PS).
\<close>

definition isWhiteSpace :: "code_unit \<Rightarrow> bool" where
  "isWhiteSpace c \<longleftrightarrow>
     c \<in> set [0x0009, 0x000A, 0x000B, 0x000C, 0x000D, 0x0020, 0x00A0, 0x1680,
              0x2000, 0x2001, 0x2002, 0x2003, 0x2004, 0x2005, 0x2006, 0x2007,
              0x2008, 0x2009, 0x200A, 0x2028, 0x2029, 0x202F, 0x205F, 0x3000, 0xFEFF]"

definition trim :: "jsstring \<Rightarrow> jsstring" where
  "trim s = rev (dropWhile isWhiteSpace (rev (dropWhile isWhiteSpace s)))"

text \<open>
  \<open>s.split(sep)\<close> for a one-unit separator: the pieces between the separators, empty
  pieces included; the empty string splits into one empty piece.
\<close>

fun split :: "code_unit \<Rightarrow> jsstring \<Rightarrow> jsstring list" where
  "split sep [] = [[]]"
| "split sep (c # cs) =
     (if c = sep then [] # split sep cs
      else (case split sep cs of t # ts \<Rightarrow> (c # t) # ts | [] \<Rightarrow> [[c]]))"

text \<open>\<open>xs.join(sep)\<close>.\<close>

fun join :: "jsstring \<Rightarrow> jsstring list \<Rightarrow> jsstring" where
  "join sep [] = []"
| "join sep [x] = x"
| "join sep (x # y # ys) = x @ sep @ join sep (y # ys)"

text \<open>
  \<open>s.substring(a, b)\<close> for non-negative integer arguments: the arguments are swapped
  when \<open>a > b\<close> and clamped to the length.
\<close>

definition substring :: "jsstring \<Rightarrow> nat \<Rightarrow> nat \<Rightarrow> jsstring" where
  "substring s a b = (let lo = min a b; hi = max a b in take (hi - lo) (drop lo s))"

text \<open>
  \<open>xs.slice(start, end)\<close>: a negative index counts from the end, and both indices are
  clamped to the array; \<open>None\<close> is an omitted \<open>end\<close>.
\<close>

definition slice :: "'a list \<Rightarrow> int \<Rightarrow> int option \<Rightarrow> 'a list" where
  "slice xs start end' =
     (let len = int (length xs);
          k = (if start < 0 then max (len + start) 0 else min start len);
          final = (case end' of
                     None \<Rightarrow> len
                   | Some e \<Rightarrow> (if e < 0 then max (len + e) 0 else min e len))
      in take (nat (final - k)) (drop (nat k) xs))"

text \<open>
  An optional string is a string or \<open>undefined\<close> (\<open>None\<close>: the field or variable is not
  set). Only a non-empty string is truthy. \<open>orElse a d\<close> is \<open>a || d\<close>; \<open>interp a\<close> is \<open>a\<close>
  inside a template literal, which for a truthy \<open>a\<close> is the string itself. The value
  \<open>null\<close> is not represented: it is falsy like \<open>undefined\<close>, but a template literal renders
  it \<open>null\<close> and a destructuring default does not replace it.
\<close>

definition truthy :: "jsstring option \<Rightarrow> bool" where
  "truthy a = (case a of None \<Rightarrow> False | Some s \<Rightarrow> s \<noteq> [])"

definition orElse :: "jsstring option \<Rightarrow> jsstring \<Rightarrow> jsstring" where
  "orElse a d = (case a of None \<Rightarrow> d | Some s \<Rightarrow> (if s \<noteq> [] then s else d))"

definition interp :: "jsstring option \<Rightarrow> jsstring" where
  "interp a = (case a of None \<Rightarrow> lit ''undefined'' | Some s \<Rightarrow> s)"

text \<open>A non-negative integer inside a template literal: its decimal digits.\<close>

function showNat :: "nat \<Rightarrow> jsstring" where
  "showNat n = (if n < 10 then [0x30 + of_nat n] else showNat (n div 10) @ [0x30 + of_nat (n mod 10)])"
  by pat_completeness auto
termination
  by (relation "measure (\<lambda>n. n)") auto

text \<open>
  \<open>toLowerCase\<close> on the ASCII letters. No code unit outside ASCII lowercases to a
  letter of \<open>openai\<close>, \<open>anthropic\<close> or \<open>google\<close>, so the provider switch cannot tell
  this from the full Unicode mapping.
\<close>

definition toLowerCase :: "jsstring \<Rightarrow> jsstring" where
  "toLowerCase s = map (\<lambda>c. if 0x41 \<le> c \<and> c \<le> 0x5A then c + 0x20 else c) s"

section \<open>Documents and the persistent store\<close>

text \<open>
  Modelled from the spec: the Conversation schema (models/Conversation is not among the
  sources). A conversation has an id, an owner id, a title and an ordered sequence of
  messages, each with a role (user or assistant) and a content; \<open>updatedAt\<close> is the
  field the controller sets on continuation. A content of \<open>None\<close> is \<open>undefined\<close>.
\<close>

datatype role = user | assistant

record chat_message =
  role :: role
  content :: "jsstring option"

record conversation =
  c_id :: jsstring
  c_userId :: jsstring
  c_title :: jsstring
  c_messages :: "chat_message list"
  c_updatedAt :: nat

text \<open>
  Modelled from the spec: the Entry schema (models/Entry is not among the sources), with
  the fields the controller reads. Title, description and category are always present
  (the entries table declares them NOT NULL or with a default); the others may be absent.
\<close>

record location =
  loc_name :: "jsstring option"
  loc_country :: "jsstring option"
  loc_region :: "jsstring option"

record entry =
  e_id :: jsstring
  e_title :: jsstring
  e_description :: jsstring
  e_category :: jsstring
  e_culturalContext :: "jsstring option"
  e_historicalPeriod :: "jsstring option"
  e_location :: "location option"
  e_tags :: "jsstring list"
  e_author :: jsstring
  e_status :: jsstring
  e_isPublic :: bool

record user_doc =
  u_id :: jsstring
  u_username :: jsstring

record database =
  entries :: "entry list"
  conversations :: "conversation list"
  users :: "user_doc list"

text \<open>An error object as the handlers read it: \<open>error.code\<close>, \<open>error.status\<close>, \<open>error.message\<close>.\<close>

record js_error =
  err_code :: "jsstring option"
  err_status :: "nat option"
  err_message :: "jsstring option"

text \<open>
  The \<open>TypeError\<close> of reading a property of \<open>undefined\<close> or \<open>null\<close>, or of calling
  what is not a function, with the message Node gives it.
\<close>

definition typeError :: "string \<Rightarrow> js_error" where
  "typeError text = \<lparr>err_code = None, err_status = None, err_message = Some (lit text)\<rparr>"

text \<open>The store calls the controller awaits, with their arguments.\<close>

datatype store_call =
    EntryFind jsstring
  | EntryFindById jsstring
  | EntryFindByIdPopulate jsstring
  | ConversationFindOne jsstring jsstring
  | ConversationSave conversation
  | ConversationFindByIdAndUpdate jsstring "chat_message list"
  | ConversationFindOneAndDelete jsstring jsstring

fun isWrite :: "store_call \<Rightarrow> bool" where
  "isWrite (ConversationSave c) = True"
| "isWrite (ConversationFindByIdAndUpdate i ms) = True"
| "isWrite (ConversationFindOneAndDelete i u) = True"
| "isWrite call = False"

text \<open>
  \<open>Entry.find({author, status: "published"}).limit(5)\<close>: the first five matching
  documents in the collection's order.
\<close>

definition Entry_find_published :: "database \<Rightarrow> jsstring \<Rightarrow> entry list" where
  "Entry_find_published st uid =
     take 5 (filter (\<lambda>e. e_author e = uid \<and> e_status e = lit ''published'') (entries st))"

definition Entry_findById :: "database \<Rightarrow> jsstring \<Rightarrow> entry option" where
  "Entry_findById st i = find (\<lambda>e. e_id e = i) (entries st)"

text \<open>
  \<open>Entry.findById(id).populate("author", "username")\<close>: the entry together with its
  author's user document, \<open>None\<close> (\<open>null\<close>) when no such user exists.
\<close>

definition Entry_findById_populate :: "database \<Rightarrow> jsstring \<Rightarrow> (entry \<times> user_doc option) option" where
  "Entry_findById_populate st i =
     (case Entry_findById st i of
        None \<Rightarrow> None
      | Some e \<Rightarrow> Some (e, find (\<lambda>u. u_id u = e_author e) (users st)))"

text \<open>\<open>Conversation.findOne({_id, userId})\<close>: the first document matching both fields.\<close>

definition Conversation_findOne :: "database \<Rightarrow> jsstring \<Rightarrow> jsstring \<Rightarrow> conversation option" where
  "Conversation_findOne st i uid =
     find (\<lambda>c. c_id c = i \<and> c_userId c = uid) (conversations st)"

text \<open>\<open>new Conversation(doc).save()\<close>: the document is inserted.\<close>

definition Conversation_save :: "database \<Rightarrow> conversation \<Rightarrow> database" where
  "Conversation_save st c = st\<lparr>conversations := conversations st @ [c]\<rparr>"

text \<open>
  \<open>Conversation.findByIdAndUpdate(id, {$push: {messages: {$each: ms}}, $set: {updatedAt}})\<close>:
  the first document with that \<open>_id\<close> is updated, whoever owns it; nothing happens when
  there is none.
\<close>

fun updateFirst :: "('a \<Rightarrow> bool) \<Rightarrow> ('a \<Rightarrow> 'a) \<Rightarrow> 'a list \<Rightarrow> 'a list" where
  "updateFirst p f [] = []"
| "updateFirst p f (x # xs) = (if p x then f x # xs else x # updateFirst p f xs)"

definition Conversation_findByIdAndUpdate ::
  "database \<Rightarrow> jsstring \<Rightarrow> chat_message list \<Rightarrow> nat \<Rightarrow> database" where
  "Conversation_findByIdAndUpdate st i ms t =
     st\<lparr>conversations :=
          updateFirst (\<lambda>c. c_id c = i)
            (\<lambda>c. c\<lparr>c_messages := c_messages c @ ms, c_updatedAt := t\<rparr>)
            (conversations st)\<rparr>"

text \<open>
  \<open>Conversation.findOneAndDelete({_id, userId})\<close>: the first matching document is
  removed and returned; \<open>None\<close> (\<open>null\<close>) and no change when there is none.
\<close>

fun removeFirst :: "('a \<Rightarrow> bool) \<Rightarrow> 'a list \<Rightarrow> 'a list" where
  "removeFirst p [] = []"
| "removeFirst p (x # xs) = (if p x then xs else x # removeFirst p xs)"

definition Conversation_findOneAndDelete ::
  "database \<Rightarrow> jsstring \<Rightarrow> jsstring \<Rightarrow> conversation option \<times> database" where
  "Conversation_findOneAndDelete st i uid =
     (find (\<lambda>c. c_id c = i \<and> c_userId c = uid) (conversations st),
      st\<lparr>conversations := removeFirst (\<lambda>c. c_id c = i \<and> c_userId c = uid) (conversations st)\<rparr>)"

section \<open>Environment, requests and responses\<close>

text \<open>\<open>process.env\<close>, as far as the controller reads it.\<close>

record process_env =
  AI_PROVIDER :: "jsstring option"
  NODE_ENV :: "jsstring option"
  OPENAI_MODEL :: "jsstring option"
  ANTHROPIC_MODEL :: "jsstring option"
  GOOGLE_MODEL :: "jsstring option"

datatype ai_client = OpenAI | Anthropic | GoogleGenerativeAI

text \<open>
  The four fixed system prompts are named rather than spelled out. The user prompt of
  \<open>askQuestion\<close> is the rendered text; of the three single-shot templates only the
  interpolated values are kept, in the template's order.
\<close>

datatype system_prompt = HeritageAssistant | DocumentationExpert | TaxonomyExpert | HeritageAnthropologist

datatype user_prompt =
    AskPrompt jsstring
  | SuggestionsPrompt "jsstring list"
  | TagsPrompt "jsstring list"
  | AnalysisPrompt "jsstring list"

text \<open>
  A call to the vendor's SDK: \<open>chat.completions.create\<close> (model, system, user,
  max_tokens, temperature), \<open>messages.create\<close> (model, max_tokens, temperature, system,
  user) or \<open>generateContent\<close> (model, system, user).
\<close>

datatype vendor_call =
    ChatCompletionsCreate jsstring system_prompt user_prompt nat rat
  | MessagesCreate jsstring nat rat system_prompt user_prompt
  | GenerateContent jsstring system_prompt user_prompt

fun clientOf :: "vendor_call \<Rightarrow> ai_client" where
  "clientOf (ChatCompletionsCreate m s u k t) = OpenAI"
| "clientOf (MessagesCreate m k t s u) = Anthropic"
| "clientOf (GenerateContent m s u) = GoogleGenerativeAI"

text \<open>
  Everything outside the controller: the process environment, the clock, whether a
  vendor SDK loads at start-up, which store calls reject (and with what error), what the
  vendor answers (an error, or the generated text, \<open>None\<close> when the response carries
  none), and the id the driver gives the next new document.
\<close>

record world =
  env :: process_env
  now :: nat
  sdkLoads :: "ai_client \<Rightarrow> bool"
  dbFault :: "store_call \<Rightarrow> js_error option"
  vendor :: "vendor_call \<Rightarrow> js_error + jsstring option"
  newObjectId :: jsstring

text \<open>
  The request as the handlers read it: the result of the validation middleware, the
  authenticated user, \<open>req.params.id\<close> and the fields of \<open>req.body\<close> (\<open>None\<close> when
  absent).
\<close>

record request =
  validationErrors :: "jsstring list"
  userId :: jsstring
  userRole :: jsstring
  param_id :: jsstring
  b_question :: "jsstring option"
  b_context :: "jsstring option"
  b_includeEntries :: "bool option"
  b_conversationId :: "jsstring option"
  b_temperature :: "rat option"
  b_maxTokens :: "nat option"
  b_title :: "jsstring option"
  b_description :: "jsstring option"
  b_culturalContext :: "jsstring option"
  b_category :: "jsstring option"
  b_location :: "location option"

record ask_data =
  d_question :: "jsstring option"
  d_answer :: "jsstring option"
  d_conversationId :: "jsstring option"
  d_timestamp :: nat
  d_provider :: jsstring
  d_model :: jsstring

record status_data =
  available :: bool
  provider :: jsstring
  model :: jsstring
  questionsAndAnswers :: bool
  conversationHistory :: bool
  entrySuggestions :: bool
  tagGeneration :: bool
  culturalAnalysis :: bool

text \<open>
  The \<open>data\<close> (or \<open>errors\<close>, \<open>error\<close>) part of the response envelope. Suggestions and
  analysis carry entry id, entry title, the generated text and the timestamp; tags carry
  the tag list, its count and the timestamp.
\<close>

datatype payload =
    NoData
  | ValidationErrors "jsstring list"
  | ErrorDetail "jsstring option"
  | AskData ask_data
  | SuggestionsData jsstring jsstring "jsstring option" nat
  | TagsData "jsstring list" nat nat
  | AnalysisData jsstring jsstring "jsstring option" nat
  | ConversationData conversation
  | StatusData status_data

record response =
  status :: nat
  success :: bool
  message :: "string option"
  data :: payload

definition failure :: "nat \<Rightarrow> string \<Rightarrow> response" where
  "failure code text = \<lparr>status = code, success = False, message = Some text, data = NoData\<rparr>"

definition ok :: "payload \<Rightarrow> response" where
  "ok d = \<lparr>status = 200, success = True, message = None, data = d\<rparr>"

text \<open>What a request does besides answering: store calls, vendor calls and console output.\<close>

datatype event =
    Db store_call
  | Generate vendor_call
  | ConsoleWarn string js_error
  | ConsoleError string js_error

record outcome =
  res :: response
  db :: database
  trace :: "event list"

section \<open>The controller\<close>

record controller =
  aiService :: "ai_client option"

text \<open>
  \<open>initializeAIService\<close>: a client for the configured vendor, \<open>None\<close> (\<open>null\<close>) for an
  unsupported provider or when loading or constructing the SDK throws.
\<close>

definition initializeAIService :: "world \<Rightarrow> ai_client option" where
  "initializeAIService w =
     (let aiProvider = toLowerCase (orElse (AI_PROVIDER (env w)) (lit ''openai''))
      in if aiProvider = lit ''openai'' then (if sdkLoads w OpenAI then Some OpenAI else None)
         else if aiProvider = lit ''anthropic'' then (if sdkLoads w Anthropic then Some Anthropic else None)
         else if aiProvider = lit ''google''
           then (if sdkLoads w GoogleGenerativeAI then Some GoogleGenerativeAI else None)
         else None)"

definition newAIController :: "world \<Rightarrow> controller" where
  "newAIController w = \<lparr>aiService = initializeAIService w\<rparr>"

text \<open>
  A method call on \<open>this.aiService\<close>: the vendor is called when the client is the one
  the method belongs to. Another vendor's client has no \<open>chat\<close>, no \<open>messages\<close> or no
  \<open>getGenerativeModel\<close> member, and the call throws.
\<close>

fun missingMember :: "vendor_call \<Rightarrow> string" where
  "missingMember (ChatCompletionsCreate m s u k t) =
     ''Cannot read properties of undefined (reading 'completions')''"
| "missingMember (MessagesCreate m k t s u) =
     ''Cannot read properties of undefined (reading 'create')''"
| "missingMember (GenerateContent m s u) =
     ''this.aiService.getGenerativeModel is not a function''"

definition invoke :: "world \<Rightarrow> ai_client \<Rightarrow> vendor_call \<Rightarrow> (js_error + jsstring option) \<times> event list" where
  "invoke w client call =
     (if clientOf call = client then (vendor w call, [Generate call])
      else (Inl (typeError (missingMember call)), []))"

text \<open>\<open>process.env.OPENAI_MODEL || process.env.ANTHROPIC_MODEL || process.env.GOOGLE_MODEL || "default"\<close>.\<close>

definition modelName :: "process_env \<Rightarrow> jsstring" where
  "modelName e = orElse (OPENAI_MODEL e) (orElse (ANTHROPIC_MODEL e) (orElse (GOOGLE_MODEL e) (lit ''default'')))"

subsection \<open>askQuestion\<close>

text \<open>The entry context block built by the \<open>forEach\<close> over the fetched entries.\<close>

definition whenTruthy :: "jsstring option \<Rightarrow> (jsstring \<Rightarrow> jsstring) \<Rightarrow> jsstring" where
  "whenTruthy a f = (case a of None \<Rightarrow> [] | Some s \<Rightarrow> (if s \<noteq> [] then f s else []))"

definition country :: "entry \<Rightarrow> jsstring option" where
  "country entry = (case e_location entry of None \<Rightarrow> None | Some l \<Rightarrow> loc_country l)"

definition entryContextLines :: "nat \<Rightarrow> entry \<Rightarrow> jsstring" where
  "entryContextLines index entry =
     showNat (index + 1) @ lit ''. '' @ e_title entry @ lit '' ('' @ e_category entry @ lit '')'' @ [0x0A]
     @ lit ''   Description: '' @ substring (e_description entry) 0 200 @ lit ''...'' @ [0x0A]
     @ whenTruthy (e_culturalContext entry)
         (\<lambda>culturalContext. lit ''   Cultural Context: '' @ substring culturalContext 0 150 @ lit ''...'' @ [0x0A])
     @ whenTruthy (country entry) (\<lambda>c. lit ''   Location: '' @ c @ [0x0A])"

definition buildEntryContext :: "entry list \<Rightarrow> jsstring" where
  "buildEntryContext userEntries =
     (if length userEntries > 0
      then [0x0A, 0x0A] @ lit ''Relevant cultural entries from your collection:'' @ [0x0A]
           @ concat (map (\<lambda>(index, entry). entryContextLines index entry) (enumerate 0 userEntries))
      else [])"

text \<open>
  The guarded lookup of the user's entries: a rejected query is caught and logged, and
  the context stays empty.
\<close>

definition fetchEntryContext :: "world \<Rightarrow> database \<Rightarrow> jsstring \<Rightarrow> jsstring \<times> event list" where
  "fetchEntryContext w st uid =
     (case dbFault w (EntryFind uid) of
        Some entryError \<Rightarrow>
          ([], [Db (EntryFind uid), ConsoleWarn ''Failed to fetch user entries for context:'' entryError])
      | None \<Rightarrow> (buildEntryContext (Entry_find_published st uid), [Db (EntryFind uid)]))"

text \<open>
  The lookup of the conversation history, not guarded: a rejected query propagates to
  the handler's \<open>catch\<close>.
\<close>

definition loadHistory ::
  "world \<Rightarrow> database \<Rightarrow> jsstring \<Rightarrow> jsstring option \<Rightarrow> (js_error + chat_message list) \<times> event list" where
  "loadHistory w st uid conversationId =
     (if truthy conversationId
      then (let i = interp conversationId in
            case dbFault w (ConversationFindOne i uid) of
              Some error \<Rightarrow> (Inl error, [Db (ConversationFindOne i uid)])
            | None \<Rightarrow>
                (Inr (case Conversation_findOne st i uid of
                        Some conversation \<Rightarrow> slice (c_messages conversation) (- 5) None
                      | None \<Rightarrow> []),
                 [Db (ConversationFindOne i uid)]))
      else (Inr [], []))"

fun roleName :: "role \<Rightarrow> jsstring" where
  "roleName user = lit ''user''"
| "roleName assistant = lit ''assistant''"

definition askUserPrompt ::
  "jsstring option \<Rightarrow> jsstring option \<Rightarrow> jsstring \<Rightarrow> chat_message list \<Rightarrow> jsstring" where
  "askUserPrompt question context entryContext history =
     lit ''Question: '' @ interp question @ [0x0A, 0x0A] @ lit ''    ''
     @ (if truthy context then lit ''Additional context: '' @ interp context else [])
     @ entryContext @ [0x0A, 0x0A] @ lit ''    ''
     @ (if length history > 0
        then [0x0A] @ lit ''Previous conversation:'' @ [0x0A]
             @ join [0x0A] (map (\<lambda>msg. roleName (role msg) @ lit '': '' @ interp (content msg)) history)
        else [])
     @ [0x0A, 0x0A]
     @ lit ''    Please provide a comprehensive, educational response about this cultural heritage topic.''"

text \<open>The vendor dispatch of \<open>askQuestion\<close>; \<open>aiResponse\<close> stays \<open>undefined\<close> when no branch matches.\<close>

definition askDispatch ::
  "world \<Rightarrow> ai_client \<Rightarrow> jsstring \<Rightarrow> nat \<Rightarrow> rat \<Rightarrow> (js_error + jsstring option) \<times> event list" where
  "askDispatch w client userPrompt maxTokens temperature =
     (let aiProvider = orElse (AI_PROVIDER (env w)) (lit ''openai'')
      in if aiProvider = lit ''openai''
         then invoke w client
                (ChatCompletionsCreate (orElse (OPENAI_MODEL (env w)) (lit ''gpt-3.5-turbo''))
                   HeritageAssistant (AskPrompt userPrompt) maxTokens temperature)
         else if aiProvider = lit ''anthropic''
         then invoke w client
                (MessagesCreate (orElse (ANTHROPIC_MODEL (env w)) (lit ''claude-3-sonnet-20240229''))
                   maxTokens temperature HeritageAssistant (AskPrompt userPrompt))
         else if aiProvider = lit ''google''
         then invoke w client
                (GenerateContent (orElse (GOOGLE_MODEL (env w)) (lit ''gemini-pro''))
                   HeritageAssistant (AskPrompt userPrompt))
         else (Inr None, []))"

text \<open>
  Saving the exchange: a new conversation when \<open>conversationId\<close> is falsy
  (\<open>question.substring\<close> throws on an absent question), else an update by id alone.
\<close>

definition exchange :: "jsstring option \<Rightarrow> jsstring option \<Rightarrow> chat_message list" where
  "exchange question aiResponse =
     [\<lparr>role = user, content = question\<rparr>, \<lparr>role = assistant, content = aiResponse\<rparr>]"

definition saveExchange ::
  "world \<Rightarrow> database \<Rightarrow> request \<Rightarrow> jsstring option \<Rightarrow> (js_error + jsstring option \<times> database) \<times> event list" where
  "saveExchange w st req aiResponse =
     (if \<not> truthy (b_conversationId req)
      then (case b_question req of
              None \<Rightarrow> (Inl (typeError ''Cannot read properties of undefined (reading 'substring')''), [])
            | Some question \<Rightarrow>
                (let newConversation =
                       \<lparr>c_id = newObjectId w, c_userId = userId req,
                        c_title = substring question 0 100,
                        c_messages = exchange (Some question) aiResponse,
                        c_updatedAt = now w\<rparr>
                 in case dbFault w (ConversationSave newConversation) of
                      Some error \<Rightarrow> (Inl error, [Db (ConversationSave newConversation)])
                    | None \<Rightarrow>
                        (Inr (Some (c_id newConversation), Conversation_save st newConversation),
                         [Db (ConversationSave newConversation)])))
      else (let i = interp (b_conversationId req);
                call = ConversationFindByIdAndUpdate i (exchange (b_question req) aiResponse)
            in case dbFault w call of
                 Some error \<Rightarrow> (Inl error, [Db call])
               | None \<Rightarrow>
                   (Inr (b_conversationId req,
                         Conversation_findByIdAndUpdate st i (exchange (b_question req) aiResponse) (now w)),
                    [Db call])))"

text \<open>The \<open>catch\<close> block of \<open>askQuestion\<close>: the mapping from the error to the response.\<close>

definition askErrorResponse :: "process_env \<Rightarrow> js_error \<Rightarrow> response" where
  "askErrorResponse e error =
     (if err_code error = Some (lit ''insufficient_quota'') \<or> err_status error = Some 429
      then failure 503 ''AI service quota exceeded. Please try again later.''
      else if err_code error = Some (lit ''rate_limit_exceeded'') \<or> err_status error = Some 429
      then failure 429 ''Too many requests. Please wait before trying again.''
      else if err_code error = Some (lit ''context_length_exceeded'')
      then failure 400 ''Question or context is too long. Please shorten your input.''
      else \<lparr>status = 500, success = False,
            message = Some ''Internal server error while processing AI request'',
            data = ErrorDetail (if NODE_ENV e = Some (lit ''development'') then err_message error else None)\<rparr>)"

definition askCatch :: "world \<Rightarrow> js_error \<Rightarrow> database \<Rightarrow> event list \<Rightarrow> outcome" where
  "askCatch w error st evs =
     \<lparr>res = askErrorResponse (env w) error, db = st,
      trace = evs @ [ConsoleError ''AI question error:'' error]\<rparr>"

definition askQuestion :: "controller \<Rightarrow> world \<Rightarrow> request \<Rightarrow> database \<Rightarrow> outcome" where
  "askQuestion this w req st =
     (if validationErrors req \<noteq> []
      then \<lparr>res = \<lparr>status = 400, success = False, message = Some ''Validation failed'',
                   data = ValidationErrors (validationErrors req)\<rparr>,
            db = st, trace = []\<rparr>
      else (case aiService this of
        None \<Rightarrow>
          \<lparr>res = failure 503 ''AI service not available. Please check configuration.'',
           db = st, trace = []\<rparr>
      | Some client \<Rightarrow>
          (let (entryContext, ev1) =
                 (if b_includeEntries req = Some True then fetchEntryContext w st (userId req)
                  else ([], []))
           in case loadHistory w st (userId req) (b_conversationId req) of
                (Inl error, ev2) \<Rightarrow> askCatch w error st (ev1 @ ev2)
              | (Inr history, ev2) \<Rightarrow>
                  (let userPrompt = askUserPrompt (b_question req) (b_context req) entryContext history
                   in case askDispatch w client userPrompt
                             (case b_maxTokens req of None \<Rightarrow> 1000 | Some n \<Rightarrow> n)
                             (case b_temperature req of None \<Rightarrow> 7 / 10 | Some t \<Rightarrow> t) of
                        (Inl error, ev3) \<Rightarrow> askCatch w error st (ev1 @ ev2 @ ev3)
                      | (Inr aiResponse, ev3) \<Rightarrow>
                          (case saveExchange w st req aiResponse of
                             (Inl error, ev4) \<Rightarrow> askCatch w error st (ev1 @ ev2 @ ev3 @ ev4)
                           | (Inr (newConversationId, st'), ev4) \<Rightarrow>
                               \<lparr>res = ok (AskData
                                   \<lparr>d_question = b_question req, d_answer = aiResponse,
                                    d_conversationId = newConversationId, d_timestamp = now w,
                                    d_provider = orElse (AI_PROVIDER (env w)) (lit ''openai''),
                                    d_model = modelName (env w)\<rparr>),
                                db = st', trace = ev1 @ ev2 @ ev3 @ ev4\<rparr>)))))"

subsection \<open>The single-shot endpoints\<close>

text \<open>
  The vendor dispatch shared by \<open>getEntrySuggestions\<close>, \<open>generateTags\<close> and
  \<open>analyzeCulturalSignificance\<close>, which differ in the default OpenAI model, the prompts
  and the sampling constants: an \<open>openai\<close> and an \<open>anthropic\<close> branch only, so the
  generated text stays \<open>undefined\<close> for any other provider.
\<close>

definition singleShotDispatch ::
  "world \<Rightarrow> ai_client \<Rightarrow> jsstring \<Rightarrow> system_prompt \<Rightarrow> user_prompt \<Rightarrow> nat \<Rightarrow> rat
     \<Rightarrow> (js_error + jsstring option) \<times> event list" where
  "singleShotDispatch w client openaiDefault sys prompt maxTokens temperature =
     (let aiProvider = orElse (AI_PROVIDER (env w)) (lit ''openai'')
      in if aiProvider = lit ''openai''
         then invoke w client
                (ChatCompletionsCreate (orElse (OPENAI_MODEL (env w)) openaiDefault)
                   sys prompt maxTokens temperature)
         else if aiProvider = lit ''anthropic''
         then invoke w client
                (MessagesCreate (orElse (ANTHROPIC_MODEL (env w)) (lit ''claude-3-sonnet-20240229''))
                   maxTokens temperature sys prompt)
         else (Inr None, []))"

definition caught :: "string \<Rightarrow> string \<Rightarrow> js_error \<Rightarrow> database \<Rightarrow> event list \<Rightarrow> outcome" where
  "caught label text error st evs =
     \<lparr>res = failure 500 text, db = st, trace = evs @ [ConsoleError label error]\<rparr>"

definition canAccess :: "jsstring \<Rightarrow> entry \<Rightarrow> request \<Rightarrow> bool" where
  "canAccess author entry req \<longleftrightarrow>
     author = userId req \<or> e_isPublic entry \<or> userRole req = lit ''admin''"

definition locationField :: "entry \<Rightarrow> (location \<Rightarrow> jsstring option) \<Rightarrow> jsstring option" where
  "locationField entry f = (case e_location entry of None \<Rightarrow> None | Some l \<Rightarrow> f l)"

definition suggestionsPrompt :: "entry \<Rightarrow> user_prompt" where
  "suggestionsPrompt entry =
     SuggestionsPrompt
       [e_title entry, e_description entry, e_category entry,
        orElse (e_culturalContext entry) (lit ''Not provided''),
        orElse (e_historicalPeriod entry) (lit ''Not provided''),
        orElse (locationField entry loc_name) (lit ''Not provided''),
        orElse (locationField entry loc_country) (lit ''Unknown''),
        orElse (Some (join (lit '', '') (e_tags entry))) (lit ''None'')]"

definition getEntrySuggestions :: "controller \<Rightarrow> world \<Rightarrow> request \<Rightarrow> database \<Rightarrow> outcome" where
  "getEntrySuggestions this w req st =
     (let i = param_id req;
          onError = caught ''Get entry suggestions error:'' ''Internal server error while generating suggestions''
      in case dbFault w (EntryFindById i) of
           Some error \<Rightarrow> onError error st [Db (EntryFindById i)]
         | None \<Rightarrow>
             (case Entry_findById st i of
                None \<Rightarrow> \<lparr>res = failure 404 ''Cultural entry not found'', db = st, trace = [Db (EntryFindById i)]\<rparr>
              | Some entry \<Rightarrow>
                  if \<not> canAccess (e_author entry) entry req
                  then \<lparr>res = failure 403 ''Access denied to this entry'', db = st,
                        trace = [Db (EntryFindById i)]\<rparr>
                  else (case aiService this of
                          None \<Rightarrow> \<lparr>res = failure 503 ''AI service not available'', db = st,
                                    trace = [Db (EntryFindById i)]\<rparr>
                        | Some client \<Rightarrow>
                            (case singleShotDispatch w client (lit ''gpt-3.5-turbo'') DocumentationExpert
                                    (suggestionsPrompt entry) 1200 (6 / 10) of
                               (Inl error, ev) \<Rightarrow> onError error st (Db (EntryFindById i) # ev)
                             | (Inr suggestions, ev) \<Rightarrow>
                                 \<lparr>res = ok (SuggestionsData i (e_title entry) suggestions (now w)),
                                  db = st, trace = Db (EntryFindById i) # ev\<rparr>))))"

text \<open>The tag post-processing: split at commas, trim, keep lengths 1 to 49, first 15.\<close>

definition parseTags :: "jsstring \<Rightarrow> jsstring list" where
  "parseTags tagsText =
     slice (filter (\<lambda>tag. length tag > 0 \<and> length tag < 50) (map trim (split 0x2C tagsText))) 0 (Some 15)"

definition tagsPrompt :: "request \<Rightarrow> user_prompt" where
  "tagsPrompt req =
     TagsPrompt
       [interp (b_title req), interp (b_description req), interp (b_category req),
        orElse (b_culturalContext req) (lit ''Not provided''),
        orElse (case b_location req of None \<Rightarrow> None | Some l \<Rightarrow> loc_country l) (lit ''Not provided'')]"

definition generateTags :: "controller \<Rightarrow> world \<Rightarrow> request \<Rightarrow> database \<Rightarrow> outcome" where
  "generateTags this w req st =
     (let onError = caught ''Generate tags error:'' ''Internal server error while generating tags''
      in if validationErrors req \<noteq> []
         then \<lparr>res = \<lparr>status = 400, success = False, message = Some ''Validation failed'',
                      data = ValidationErrors (validationErrors req)\<rparr>,
               db = st, trace = []\<rparr>
         else (case aiService this of
                 None \<Rightarrow> \<lparr>res = failure 503 ''AI service not available'', db = st, trace = []\<rparr>
               | Some client \<Rightarrow>
                   (case singleShotDispatch w client (lit ''gpt-3.5-turbo'') TaxonomyExpert
                           (tagsPrompt req) 200 (5 / 10) of
                      (Inl error, ev) \<Rightarrow> onError error st ev
                    | (Inr tagsText, ev) \<Rightarrow>
                        (case tagsText of
                           None \<Rightarrow>
                             onError (typeError ''Cannot read properties of undefined (reading 'split')'') st ev
                         | Some text \<Rightarrow>
                             (let tags = parseTags text
                              in \<lparr>res = ok (TagsData tags (length tags) (now w)), db = st, trace = ev\<rparr>)))))"

definition analysisPrompt :: "entry \<Rightarrow> user_prompt" where
  "analysisPrompt entry =
     AnalysisPrompt
       [e_title entry, e_description entry, e_category entry,
        orElse (e_culturalContext entry) (lit ''Not provided''),
        orElse (e_historicalPeriod entry) (lit ''Not provided''),
        orElse (locationField entry loc_name) (lit ''Not provided''),
        orElse (locationField entry loc_country) (lit ''Unknown''),
        orElse (locationField entry loc_region) (lit ''Unknown'')]"

definition analyzeCulturalSignificance :: "controller \<Rightarrow> world \<Rightarrow> request \<Rightarrow> database \<Rightarrow> outcome" where
  "analyzeCulturalSignificance this w req st =
     (let i = param_id req;
          onError = caught ''Analyze cultural significance error:''
                   ''Internal server error while analyzing cultural significance''
      in case dbFault w (EntryFindByIdPopulate i) of
           Some error \<Rightarrow> onError error st [Db (EntryFindByIdPopulate i)]
         | None \<Rightarrow>
             (case Entry_findById_populate st i of
                None \<Rightarrow> \<lparr>res = failure 404 ''Cultural entry not found'', db = st,
                          trace = [Db (EntryFindByIdPopulate i)]\<rparr>
              | Some (entry, None) \<Rightarrow>
                  onError (typeError ''Cannot read properties of null (reading '_id')'') st
                    [Db (EntryFindByIdPopulate i)]
              | Some (entry, Some author) \<Rightarrow>
                  if \<not> canAccess (u_id author) entry req
                  then \<lparr>res = failure 403 ''Access denied to this entry'', db = st,
                        trace = [Db (EntryFindByIdPopulate i)]\<rparr>
                  else (case aiService this of
                          None \<Rightarrow> \<lparr>res = failure 503 ''AI service not available'', db = st,
                                    trace = [Db (EntryFindByIdPopulate i)]\<rparr>
                        | Some client \<Rightarrow>
                            (case singleShotDispatch w client (lit ''gpt-4-turbo-preview'')
                                    HeritageAnthropologist (analysisPrompt entry) 1500 (7 / 10) of
                               (Inl error, ev) \<Rightarrow> onError error st (Db (EntryFindByIdPopulate i) # ev)
                             | (Inr analysis, ev) \<Rightarrow>
                                 \<lparr>res = ok (AnalysisData i (e_title entry) analysis (now w)),
                                  db = st, trace = Db (EntryFindByIdPopulate i) # ev\<rparr>))))"

subsection \<open>Conversations and service status\<close>

definition getConversationById :: "world \<Rightarrow> request \<Rightarrow> database \<Rightarrow> outcome" where
  "getConversationById w req st =
     (let call = ConversationFindOne (param_id req) (userId req)
      in case dbFault w call of
           Some error \<Rightarrow>
             caught ''Get conversation error:'' ''Internal server error while fetching conversation''
               error st [Db call]
         | None \<Rightarrow>
             (case Conversation_findOne st (param_id req) (userId req) of
                None \<Rightarrow> \<lparr>res = failure 404 ''Conversation not found'', db = st, trace = [Db call]\<rparr>
              | Some conversation \<Rightarrow>
                  \<lparr>res = ok (ConversationData conversation), db = st, trace = [Db call]\<rparr>))"

definition deleteConversation :: "world \<Rightarrow> request \<Rightarrow> database \<Rightarrow> outcome" where
  "deleteConversation w req st =
     (let call = ConversationFindOneAndDelete (param_id req) (userId req)
      in case dbFault w call of
           Some error \<Rightarrow>
             caught ''Delete conversation error:'' ''Internal server error while deleting conversation''
               error st [Db call]
         | None \<Rightarrow>
             (case Conversation_findOneAndDelete st (param_id req) (userId req) of
                (None, st') \<Rightarrow> \<lparr>res = failure 404 ''Conversation not found'', db = st', trace = [Db call]\<rparr>
              | (Some conversation, st') \<Rightarrow>
                  \<lparr>res = \<lparr>status = 200, success = True,
                          message = Some ''Conversation deleted successfully'', data = NoData\<rparr>,
                   db = st', trace = [Db call]\<rparr>))"

definition getServiceStatus :: "controller \<Rightarrow> world \<Rightarrow> response" where
  "getServiceStatus this w =
     (let isAvailable = (aiService this \<noteq> None)
      in ok (StatusData
               \<lparr>available = isAvailable,
                provider = orElse (AI_PROVIDER (env w)) (lit ''none''),
                model = modelName (env w),
                questionsAndAnswers = isAvailable,
                conversationHistory = isAvailable,
                entrySuggestions = isAvailable,
                tagGeneration = isAvailable,
                culturalAnalysis = isAvailable\<rparr>))"

section \<open>Observations and limits used in the statements\<close>

text \<open>The store calls and the vendor calls of a trace, and the user prompt of a vendor call.\<close>

fun storeCalls :: "event list \<Rightarrow> store_call list" where
  "storeCalls [] = []"
| "storeCalls (Db c # evs) = c # storeCalls evs"
| "storeCalls (ev # evs) = storeCalls evs"

fun vendorCalls :: "event list \<Rightarrow> vendor_call list" where
  "vendorCalls [] = []"
| "vendorCalls (Generate c # evs) = c # vendorCalls evs"
| "vendorCalls (ev # evs) = vendorCalls evs"

fun promptOf :: "vendor_call \<Rightarrow> user_prompt" where
  "promptOf (ChatCompletionsCreate m s u k t) = u"
| "promptOf (MessagesCreate m k t s u) = u"
| "promptOf (GenerateContent m s u) = u"

text \<open>
  An entry cut to the character budgets of the context block: the first 200 code units of
  the description and the first 150 of the cultural context.
\<close>

definition clipEntry :: "entry \<Rightarrow> entry" where
  "clipEntry e =
     e\<lparr>e_description := take 200 (e_description e),
       e_culturalContext := map_option (take 150) (e_culturalContext e)\<rparr>"

text \<open>The conversations a user owns, in the store's order.\<close>

definition ownConversations :: "database \<Rightarrow> jsstring \<Rightarrow> conversation list" where
  "ownConversations st uid = filter (\<lambda>c. c_userId c = uid) (conversations st)"

section \<open>Example data\<close>

definition alice :: jsstring where
  "alice = lit ''alice''"

definition bob :: jsstring where
  "bob = lit ''bob''"

definition turn :: "role \<Rightarrow> string \<Rightarrow> chat_message" where
  "turn r s = \<lparr>role = r, content = Some (lit s)\<rparr>"

definition bobsConversation :: conversation where
  "bobsConversation =
     \<lparr>c_id = lit ''c1'', c_userId = bob, c_title = lit ''Masks'',
      c_messages = [turn user ''q1'', turn assistant ''a1'', turn user ''q2'',
                    turn assistant ''a2'', turn user ''q3'', turn assistant ''a3''],
      c_updatedAt = 7\<rparr>"

definition loom :: entry where
  "loom =
     \<lparr>e_id = lit ''e1'', e_title = lit ''Backstrap loom'', e_description = lit ''A loom'',
      e_category = lit ''Crafts'', e_culturalContext = Some (lit ''Weaving''),
      e_historicalPeriod = None,
      e_location = Some \<lparr>loc_name = None, loc_country = Some (lit ''Peru''), loc_region = None\<rparr>,
      e_tags = [], e_author = alice, e_status = lit ''published'', e_isPublic = False\<rparr>"

definition archive :: database where
  "archive =
     \<lparr>entries = [loom], conversations = [bobsConversation],
      users = [\<lparr>u_id = alice, u_username = lit ''alice''\<rparr>, \<lparr>u_id = bob, u_username = lit ''bob''\<rparr>]\<rparr>"

text \<open>
  A world where nothing fails: no provider variable set (so \<open>openai\<close>), every SDK loads,
  no store call rejects and the vendor answers.
\<close>

definition calm :: world where
  "calm =
     \<lparr>env = \<lparr>AI_PROVIDER = None, NODE_ENV = None, OPENAI_MODEL = None, ANTHROPIC_MODEL = None,
             GOOGLE_MODEL = None\<rparr>,
      now = 1000, sdkLoads = (\<lambda>c. True), dbFault = (\<lambda>c. None),
      vendor = (\<lambda>c. Inr (Some (lit ''An answer''))), newObjectId = lit ''c2''\<rparr>"

definition withProvider :: "string \<Rightarrow> world \<Rightarrow> world" where
  "withProvider p w = w\<lparr>env := (env w)\<lparr>AI_PROVIDER := Some (lit p)\<rparr>\<rparr>"

text \<open>A request of the given user with the given question and conversation id, nothing else set.\<close>

definition asks :: "jsstring \<Rightarrow> string \<Rightarrow> jsstring option \<Rightarrow> request" where
  "asks uid q cid =
     \<lparr>validationErrors = [], userId = uid, userRole = lit ''user'', param_id = [],
      b_question = Some (lit q), b_context = None, b_includeEntries = None,
      b_conversationId = cid, b_temperature = None, b_maxTokens = None, b_title = None,
      b_description = None, b_culturalContext = None, b_category = None, b_location = None\<rparr>"

text \<open>The error the OpenAI SDK raises on HTTP 429 with the code \<open>rate_limit_exceeded\<close>.\<close>

definition rateLimitError :: js_error where
  "rateLimitError =
     \<lparr>err_code = Some (lit ''rate_limit_exceeded''), err_status = Some 429,
      err_message = Some (lit ''Rate limit reached'')\<rparr>"

text \<open>A store whose lookups of entries and conversations reject (the connection is lost).\<close>

definition connectionLost :: js_error where
  "connectionLost =
     \<lparr>err_code = None, err_status = None, err_message = Some (lit ''connection lost'')\<rparr>"

fun lookupsReject :: "store_call \<Rightarrow> js_error option" where
  "lookupsReject (ConversationFindOne i u) = Some connectionLost"
| "lookupsReject (EntryFind u) = Some connectionLost"
| "lookupsReject call = None"

text \<open>The vendor calls expected of two example requests.\<close>

definition bobsCall :: vendor_call where
  "bobsCall =
     ChatCompletionsCreate (lit ''gpt-3.5-turbo'') HeritageAssistant
       (AskPrompt (askUserPrompt (Some (lit ''Why?'')) None [] (tl (c_messages bobsConversation))))
       1000 (7 / 10)"

definition alicesCall :: vendor_call where
  "alicesCall =
     ChatCompletionsCreate (lit ''gpt-3.5-turbo'') HeritageAssistant
       (AskPrompt (askUserPrompt (Some (lit ''Why?'')) None (buildEntryContext [loom]) []))
       1000 (7 / 10)"

text \<open>A request of the given user for the resource with the given id.\<close>

definition visits :: "jsstring \<Rightarrow> string \<Rightarrow> request" where
  "visits uid i = (asks uid ''Why?'' None)\<lparr>param_id := lit i\<rparr>"

text \<open>A controller with no provider configured, and one per vendor client.\<close>

definition unconfigured :: controller where
  "unconfigured = \<lparr>aiService = None\<rparr>"

definition configured :: "ai_client \<Rightarrow> controller" where
  "configured client = \<lparr>aiService = Some client\<rparr>"

text \<open>A tag request for the loom entry's fields.\<close>

definition tagging :: request where
  "tagging =
     (asks alice ''Why?'' None)
       \<lparr>b_title := Some (lit ''Backstrap loom''), b_description := Some (lit ''A loom''),
        b_category := Some (lit ''Crafts'')\<rparr>"

section \<open>Strings and arrays: basic facts\<close>

lemma split_not_Nil: "split c s \<noteq> []"
  by (induction s) (auto split: list.splits)

lemma join_Cons: "ys \<noteq> [] \<Longrightarrow> join sep (x # ys) = x @ sep @ join sep ys"
  by (cases ys) auto

lemma join_push: "ys \<noteq> [] \<Longrightarrow> join sep ((c # hd ys) # tl ys) = c # join sep ys"
  by (cases ys; cases "tl ys") auto

lemma join_split: "join [c] (split c s) = s"
proof (induction s)
  case Nil
  show ?case by simp
next
  case (Cons x xs)
  show ?case
  proof (cases "x = c")
    case True
    with Cons show ?thesis by (simp add: join_Cons split_not_Nil)
  next
    case False
    obtain t ts where ts: "split c xs = t # ts"
      using split_not_Nil[of c xs] by (cases "split c xs") auto
    have "join [c] ((x # t) # ts) = x # join [c] (t # ts)"
      using join_push[of "t # ts" "[c]" x] by simp
    with False ts Cons show ?thesis by simp
  qed
qed

lemma split_no_sep: "t \<in> set (split c s) \<Longrightarrow> c \<notin> set t"
  by (induction s arbitrary: t) (auto split: if_splits list.splits)

lemma slice_take: "0 \<le> n \<Longrightarrow> slice xs 0 (Some n) = take (nat n) xs"
  by (auto simp: slice_def Let_def min_def)

lemma slice_last: "0 < n \<Longrightarrow> slice xs (- n) None = drop (length xs - nat n) xs"
  by (auto simp: slice_def Let_def max_def nat_diff_distrib')

lemma rev_dropWhile_takeWhile:
  "rev (dropWhile P (rev xs)) @ rev (takeWhile P (rev xs)) = xs"
proof -
  have "rev (dropWhile P (rev xs)) @ rev (takeWhile P (rev xs))
          = rev (takeWhile P (rev xs) @ dropWhile P (rev xs))"
    by (simp only: rev_append)
  also have "\<dots> = rev (rev xs)"
    by (simp only: takeWhile_dropWhile_id)
  finally show ?thesis by simp
qed

lemma trim_tail:
  "trim t @ rev (takeWhile isWhiteSpace (rev (dropWhile isWhiteSpace t))) = dropWhile isWhiteSpace t"
  unfolding trim_def by (rule rev_dropWhile_takeWhile)

lemma trim_decomp:
  "\<exists>a b. t = a @ trim t @ b \<and> (\<forall>c\<in>set a. isWhiteSpace c) \<and> (\<forall>c\<in>set b. isWhiteSpace c)"
proof -
  let ?a = "takeWhile isWhiteSpace t"
  let ?b = "rev (takeWhile isWhiteSpace (rev (dropWhile isWhiteSpace t)))"
  have "t = ?a @ trim t @ ?b"
    by (simp only: trim_tail takeWhile_dropWhile_id)
  moreover have "\<forall>c\<in>set ?a. isWhiteSpace c" by (auto dest: set_takeWhileD)
  moreover have "\<forall>c\<in>set ?b. isWhiteSpace c" by (auto dest: set_takeWhileD)
  ultimately show ?thesis by blast
qed

lemma trim_hd: "trim t \<noteq> [] \<Longrightarrow> \<not> isWhiteSpace (hd (trim t))"
proof -
  assume ne: "trim t \<noteq> []"
  have "hd (trim t) = hd (dropWhile isWhiteSpace t)"
    using ne trim_tail[of t] by (metis hd_append2)
  moreover have "dropWhile isWhiteSpace t \<noteq> []"
    using ne trim_tail[of t] by (metis append_is_Nil_conv)
  ultimately show ?thesis by (simp add: hd_dropWhile)
qed

lemma trim_last: "trim t \<noteq> [] \<Longrightarrow> \<not> isWhiteSpace (last (trim t))"
proof -
  assume ne: "trim t \<noteq> []"
  let ?r = "rev (dropWhile isWhiteSpace t)"
  have "dropWhile isWhiteSpace ?r \<noteq> []" using ne by (simp add: trim_def)
  then have "\<not> isWhiteSpace (hd (dropWhile isWhiteSpace ?r))" by (rule hd_dropWhile)
  moreover have "last (trim t) = hd (dropWhile isWhiteSpace ?r)"
    using ne by (simp add: trim_def last_rev)
  ultimately show ?thesis by simp
qed

section \<open>Tag post-processing\<close>

lemma parseTags_take:
  "parseTags s = take 15 (filter (\<lambda>t. t \<noteq> [] \<and> \<not> 49 < length t) (map trim (split 0x2C s)))"
proof -
  have "(\<lambda>tag::jsstring. length tag > 0 \<and> length tag < 50) = (\<lambda>t. t \<noteq> [] \<and> \<not> 49 < length t)"
    by (auto simp: fun_eq_iff)
  then show ?thesis by (simp add: parseTags_def slice_take)
qed

lemma parseTags_member:
  assumes "tag \<in> set (parseTags s)"
  shows "tag \<noteq> [] \<and> length tag \<le> 49 \<and> \<not> isWhiteSpace (hd tag) \<and> \<not> isWhiteSpace (last tag)"
proof -
  from assms have "tag \<in> set (filter (\<lambda>t. t \<noteq> [] \<and> \<not> 49 < length t) (map trim (split 0x2C s)))"
    unfolding parseTags_take by (rule in_set_takeD)
  then obtain t where t: "tag = trim t" and ne: "tag \<noteq> []" and le: "length tag \<le> 49"
    by auto
  from ne show ?thesis
    unfolding t using le t trim_hd[of t] trim_last[of t] by simp
qed

text \<open>
  Claim C2, as the code has it. For every text the adapter returns, the tags are the
  comma-separated tokens of the text (the pieces that joined by commas give the text back,
  none containing a comma), each trimmed of the white space around it, with the empty ones
  and those longer than 49 code units dropped, in their order, and only the first 15 of
  them. For the text \<open>Tag1, tag2,, averylongtagthatexceedsfortyninecharacters......, Tag3\<close>
  the result is the four tags Tag1, tag2, averylongtagthatexceedsfortyninecharacters......
  and Tag3: the long token has 48 code units and is kept. With a token of 54 code units in
  its place the result is Tag1, tag2, Tag3.
\<close>

theorem parseTags_tokens:
  "(\<exists>toks. toks \<noteq> [] \<and> join (lit '','') toks = tagsText \<and> (\<forall>t\<in>set toks. 0x2C \<notin> set t)
      \<and> parseTags tagsText = take 15 (filter (\<lambda>t. t \<noteq> [] \<and> \<not> 49 < length t) (map trim toks)))
   \<and> (\<forall>t. \<exists>a b. t = a @ trim t @ b \<and> (\<forall>c\<in>set a. isWhiteSpace c) \<and> (\<forall>c\<in>set b. isWhiteSpace c))
   \<and> length (parseTags tagsText) \<le> 15
   \<and> (\<forall>tag\<in>set (parseTags tagsText).
         tag \<noteq> [] \<and> length tag \<le> 49 \<and> \<not> isWhiteSpace (hd tag) \<and> \<not> isWhiteSpace (last tag))
   \<and> parseTags (lit ''Tag1, tag2,, averylongtagthatexceedsfortyninecharacters......, Tag3'')
       = [lit ''Tag1'', lit ''tag2'', lit ''averylongtagthatexceedsfortyninecharacters......'', lit ''Tag3'']
   \<and> parseTags (lit ''Tag1, tag2,, averylongtagthatexceedsfortyninecharacterswithoutdoubt, Tag3'')
       = [lit ''Tag1'', lit ''tag2'', lit ''Tag3'']"
proof -
  have "split 0x2C tagsText \<noteq> [] \<and> join (lit '','') (split 0x2C tagsText) = tagsText
        \<and> (\<forall>t\<in>set (split 0x2C tagsText). 0x2C \<notin> set t)"
    using join_split[of "0x2C" tagsText] by (auto simp: lit_def split_not_Nil dest: split_no_sep)
  then have tokens: "\<exists>toks. toks \<noteq> [] \<and> join (lit '','') toks = tagsText \<and> (\<forall>t\<in>set toks. 0x2C \<notin> set t)
      \<and> parseTags tagsText = take 15 (filter (\<lambda>t. t \<noteq> [] \<and> \<not> 49 < length t) (map trim toks))"
    using parseTags_take[of tagsText] by blast
  have len: "length (parseTags tagsText) \<le> 15"
    by (simp add: parseTags_take)
  have kept: "\<forall>tag\<in>set (parseTags tagsText).
      tag \<noteq> [] \<and> length tag \<le> 49 \<and> \<not> isWhiteSpace (hd tag) \<and> \<not> isWhiteSpace (last tag)"
    using parseTags_member by blast
  have ex1: "parseTags (lit ''Tag1, tag2,, averylongtagthatexceedsfortyninecharacters......, Tag3'')
       = [lit ''Tag1'', lit ''tag2'', lit ''averylongtagthatexceedsfortyninecharacters......'', lit ''Tag3'']"
    by (simp add: parseTags_take lit_def trim_def isWhiteSpace_def)
  have ex2: "parseTags (lit ''Tag1, tag2,, averylongtagthatexceedsfortyninecharacterswithoutdoubt, Tag3'')
       = [lit ''Tag1'', lit ''tag2'', lit ''Tag3'']"
    by (simp add: parseTags_take lit_def trim_def isWhiteSpace_def)
  from tokens trim_decomp len kept ex1 ex2 show ?thesis by blast
qed

theorem parseTags_tokens_witness:
  "parseTags (lit '' clay pots ,,weaving, '') = [lit ''clay pots'', lit ''weaving'']
   \<and> length (parseTags (lit '' clay pots ,,weaving, '')) \<le> 15
   \<and> \<not> isWhiteSpace (hd (lit ''clay pots'')) \<and> \<not> isWhiteSpace (last (lit ''weaving''))"
proof -
  have tags: "parseTags (lit '' clay pots ,,weaving, '') = [lit ''clay pots'', lit ''weaving'']"
    by (simp add: parseTags_take lit_def trim_def isWhiteSpace_def)
  show ?thesis
    using parseTags_tokens[of "lit '' clay pots ,,weaving, ''"] unfolding tags by simp
qed

text \<open>
  The example of claim C2 as the claim gives it: on that text the result is not the three
  tags Tag1, tag2, Tag3.
\<close>

theorem parseTags_example_counterexample:
  "parseTags (lit ''Tag1, tag2,, averylongtagthatexceedsfortyninecharacters......, Tag3'')
     \<noteq> [lit ''Tag1'', lit ''tag2'', lit ''Tag3'']"
  by (simp add: parseTags_take lit_def trim_def isWhiteSpace_def)

section \<open>Traces and the structure of askQuestion\<close>

lemma vendorCalls_append: "vendorCalls (xs @ ys) = vendorCalls xs @ vendorCalls ys"
  by (induction xs rule: vendorCalls.induct) auto

lemma storeCalls_append: "storeCalls (xs @ ys) = storeCalls xs @ storeCalls ys"
  by (induction xs rule: storeCalls.induct) auto

lemma fetchEntryContext_quiet: "vendorCalls (snd (fetchEntryContext w st uid)) = []"
  by (simp add: fetchEntryContext_def split: option.splits)

lemma loadHistory_quiet: "vendorCalls (snd (loadHistory w st uid cid)) = []"
  by (simp add: loadHistory_def Let_def split: option.splits)

lemma saveExchange_quiet: "vendorCalls (snd (saveExchange w st req a)) = []"
  by (simp add: saveExchange_def Let_def split: option.splits)

lemma saveExchange_quiet': "saveExchange w st req a = (r, ev) \<Longrightarrow> vendorCalls ev = []"
  using saveExchange_quiet[of w st req a] by simp

lemma invoke_prompt: "c \<in> set (vendorCalls (snd (invoke w client call))) \<Longrightarrow> c = call"
  by (simp add: invoke_def split: if_splits)

lemma askDispatch_prompt:
  "c \<in> set (vendorCalls (snd (askDispatch w client up k t))) \<Longrightarrow> promptOf c = AskPrompt up"
  by (auto simp: askDispatch_def Let_def split: if_splits dest!: invoke_prompt)

lemma askDispatch_prompt':
  "askDispatch w client up k t = (r, ev) \<Longrightarrow> c \<in> set (vendorCalls ev) \<Longrightarrow> promptOf c = AskPrompt up"
  using askDispatch_prompt[of c w client up k t] by simp

lemma askCatch_status: "status (res (askCatch w e st evs)) \<noteq> 200"
  by (simp add: askCatch_def askErrorResponse_def failure_def)

lemma askCatch_trace: "vendorCalls (trace (askCatch w e st evs)) = vendorCalls evs"
  by (simp add: askCatch_def vendorCalls_append)

lemma caught_simps:
  "res (caught l t e st evs) = failure 500 t" "db (caught l t e st evs) = st"
  "trace (caught l t e st evs) = evs @ [ConsoleError l e]"
  by (simp_all add: caught_def)

lemma storeCalls_caught: "storeCalls (trace (caught l t e st evs)) = storeCalls evs"
  by (simp add: caught_def storeCalls_append)

lemma vendorCalls_caught: "vendorCalls (trace (caught l t e st evs)) = vendorCalls evs"
  by (simp add: caught_def vendorCalls_append)

text \<open>
  Every vendor call of \<open>askQuestion\<close> carries the user prompt built from the request, the
  entry context and the history the lookup returned.
\<close>

lemma askQuestion_prompt:
  assumes "call \<in> set (vendorCalls (trace (askQuestion this w req st)))"
  shows "\<exists>history ev. loadHistory w st (userId req) (b_conversationId req) = (Inr history, ev)
     \<and> promptOf call = AskPrompt (askUserPrompt (b_question req) (b_context req)
           (fst (if b_includeEntries req = Some True then fetchEntryContext w st (userId req) else ([], []))) history)"
proof -
  obtain ec ev1 where e1: "(if b_includeEntries req = Some True then fetchEntryContext w st (userId req) else ([], [])) = (ec, ev1)"
    by (cases "(if b_includeEntries req = Some True then fetchEntryContext w st (userId req) else ([], []))") 
  have q1: "vendorCalls ev1 = []" using e1 fetchEntryContext_quiet[of w st "userId req"] by (auto split: if_splits)
  obtain h ev2 where e2: "loadHistory w st (userId req) (b_conversationId req) = (h, ev2)"
    by (cases "loadHistory w st (userId req) (b_conversationId req)")
  have q2: "vendorCalls ev2 = []" using e2 loadHistory_quiet[of w st "userId req" "b_conversationId req"] by simp
  show ?thesis
    using assms q1 q2 unfolding askQuestion_def Let_def e1 e2
    by (auto simp: askCatch_trace vendorCalls_append split: if_splits option.splits sum.splits prod.splits
         dest: askDispatch_prompt' saveExchange_quiet')
qed

text \<open>
  A request answered with 200 went through every step: it passed validation, a client was
  configured, the history lookup and the vendor call returned, and the exchange was saved.
\<close>

lemma askQuestion_200:
  assumes "status (res (askQuestion this w req st)) = 200"
  shows "\<exists>client ec ev1 history ev2 a ev3 nid st' ev4.
     validationErrors req = [] \<and> aiService this = Some client
     \<and> (if b_includeEntries req = Some True then fetchEntryContext w st (userId req) else ([], [])) = (ec, ev1)
     \<and> loadHistory w st (userId req) (b_conversationId req) = (Inr history, ev2)
     \<and> askDispatch w client (askUserPrompt (b_question req) (b_context req) ec history)
          (case b_maxTokens req of None \<Rightarrow> 1000 | Some n \<Rightarrow> n)
          (case b_temperature req of None \<Rightarrow> 7 / 10 | Some t \<Rightarrow> t) = (Inr a, ev3)
     \<and> saveExchange w st req a = (Inr (nid, st'), ev4)
     \<and> db (askQuestion this w req st) = st'
     \<and> trace (askQuestion this w req st) = ev1 @ ev2 @ ev3 @ ev4
     \<and> (\<exists>d. data (res (askQuestion this w req st)) = AskData d \<and> d_answer d = a \<and> d_conversationId d = nid)"
proof -
  obtain ec ev1 where e1: "(if b_includeEntries req = Some True then fetchEntryContext w st (userId req) else ([], [])) = (ec, ev1)"
    by (cases "(if b_includeEntries req = Some True then fetchEntryContext w st (userId req) else ([], []))") 
  obtain h ev2 where e2: "loadHistory w st (userId req) (b_conversationId req) = (h, ev2)"
    by (cases "loadHistory w st (userId req) (b_conversationId req)")
  show ?thesis
    using assms unfolding askQuestion_def Let_def e1 e2
    by (auto simp: askCatch_status failure_def ok_def
             split: if_splits option.splits sum.splits prod.splits)
qed

lemma invoke_answer:
  "invoke w client call = (Inr a, ev) \<Longrightarrow> vendorCalls ev = [call] \<and> vendor w call = Inr a"
  by (auto simp: invoke_def split: if_splits)

lemma askDispatch_answer:
  assumes "askDispatch w client up k t = (Inr a, ev)"
  shows "(\<exists>call. vendorCalls ev = [call] \<and> vendor w call = Inr a) \<or> (vendorCalls ev = [] \<and> a = None)"
  using assms by (auto simp: askDispatch_def Let_def split: if_splits dest!: invoke_answer)

lemma saveExchange_new:
  assumes "saveExchange w st req a = (Inr (nid, st'), ev)" and "\<not> truthy (b_conversationId req)"
  shows "\<exists>question. b_question req = Some question \<and> nid = Some (newObjectId w)
      \<and> st' = st\<lparr>conversations := conversations st @
           [\<lparr>c_id = newObjectId w, c_userId = userId req, c_title = take 100 question,
             c_messages = [\<lparr>role = user, content = Some question\<rparr>, \<lparr>role = assistant, content = a\<rparr>],
             c_updatedAt = now w\<rparr>]\<rparr>"
  using assms
  by (auto simp: saveExchange_def Let_def Conversation_save_def exchange_def substring_def
           split: option.splits)

lemma loadHistory_found:
  assumes "loadHistory w st uid cid = (Inr history, ev)" and "truthy cid"
    and "Conversation_findOne st (interp cid) uid = Some conversation"
  shows "history = drop (length (c_messages conversation) - 5) (c_messages conversation)"
  using assms by (auto simp: loadHistory_def Let_def slice_last split: option.splits)

lemma loadHistory_short:
  assumes "loadHistory w st uid cid = (Inr history, ev)"
  shows "length history \<le> 5"
  using assms by (auto simp: loadHistory_def Let_def slice_last split: option.splits if_splits)

text \<open>
  The definitions unfolded when a handler is run on the example data.
\<close>

lemmas run_defs = askQuestion_def loadHistory_def fetchEntryContext_def askDispatch_def invoke_def
  saveExchange_def askCatch_def askErrorResponse_def exchange_def failure_def ok_def
  Conversation_findOne_def Conversation_save_def Conversation_findByIdAndUpdate_def
  Entry_find_published_def truthy_def orElse_def interp_def modelName_def Let_def slice_last
  substring_def

lemmas shot_defs = getEntrySuggestions_def analyzeCulturalSignificance_def generateTags_def
  getConversationById_def deleteConversation_def singleShotDispatch_def invoke_def caught_def
  canAccess_def Entry_findById_def Entry_findById_populate_def Conversation_findOne_def
  Conversation_findOneAndDelete_def failure_def ok_def orElse_def Let_def

lemmas data_defs = configured_def unconfigured_def visits_def calm_def archive_def bobsConversation_def alice_def bob_def asks_def turn_def
  loom_def withProvider_def rateLimitError_def connectionLost_def lit_def

section \<open>Starting a conversation\<close>

text \<open>
  Every \<open>askQuestion\<close> request answered with 200 whose \<open>conversationId\<close> is absent (or
  otherwise falsy) has a question, and leaves the store with exactly one more conversation,
  appended to the others, which are unchanged: it belongs to the requesting user, its title
  is the first 100 code units of the question, and its messages are exactly two, the first
  of role user holding the question and the second of role assistant holding the answer the
  response reports. That answer is what the vendor returned to the one vendor call of the
  request, or it is \<open>undefined\<close>, with no vendor call made, when no branch of the vendor
  dispatch matched the provider.
\<close>

theorem askQuestion_starts_conversation:
  assumes "status (res (askQuestion this w req st)) = 200" and "\<not> truthy (b_conversationId req)"
  shows "\<exists>question answer.
      b_question req = Some question
    \<and> db (askQuestion this w req st) = st\<lparr>conversations := conversations st @
         [\<lparr>c_id = newObjectId w, c_userId = userId req, c_title = take 100 question,
           c_messages = [\<lparr>role = user, content = Some question\<rparr>, \<lparr>role = assistant, content = answer\<rparr>],
           c_updatedAt = now w\<rparr>]\<rparr>
    \<and> (\<exists>d. data (res (askQuestion this w req st)) = AskData d \<and> d_answer d = answer
            \<and> d_conversationId d = Some (newObjectId w))
    \<and> ((\<exists>call. vendorCalls (trace (askQuestion this w req st)) = [call] \<and> vendor w call = Inr answer)
        \<or> (vendorCalls (trace (askQuestion this w req st)) = [] \<and> answer = None))"
proof -
  from askQuestion_200[OF assms(1)] obtain client ec ev1 history ev2 a ev3 nid st' ev4 where
    e1: "(if b_includeEntries req = Some True then fetchEntryContext w st (userId req) else ([], [])) = (ec, ev1)"
    and e2: "loadHistory w st (userId req) (b_conversationId req) = (Inr history, ev2)"
    and e3: "askDispatch w client (askUserPrompt (b_question req) (b_context req) ec history)
          (case b_maxTokens req of None \<Rightarrow> 1000 | Some n \<Rightarrow> n)
          (case b_temperature req of None \<Rightarrow> 7 / 10 | Some t \<Rightarrow> t) = (Inr a, ev3)"
    and e4: "saveExchange w st req a = (Inr (nid, st'), ev4)"
    and d: "db (askQuestion this w req st) = st'"
    and t: "trace (askQuestion this w req st) = ev1 @ ev2 @ ev3 @ ev4"
    and r: "\<exists>d. data (res (askQuestion this w req st)) = AskData d \<and> d_answer d = a \<and> d_conversationId d = nid"
    by blast
  have q1: "vendorCalls ev1 = []"
    using e1 fetchEntryContext_quiet[of w st "userId req"] by (auto split: if_splits)
  have q2: "vendorCalls ev2 = []"
    using e2 loadHistory_quiet[of w st "userId req" "b_conversationId req"] by simp
  have q4: "vendorCalls ev4 = []"
    using e4 by (rule saveExchange_quiet')
  have calls: "vendorCalls (trace (askQuestion this w req st)) = vendorCalls ev3"
    by (simp add: t vendorCalls_append q1 q2 q4)
  from saveExchange_new[OF e4 assms(2)] obtain question where
    q: "b_question req = Some question" and n: "nid = Some (newObjectId w)"
    and s: "st' = st\<lparr>conversations := conversations st @
           [\<lparr>c_id = newObjectId w, c_userId = userId req, c_title = take 100 question,
             c_messages = [\<lparr>role = user, content = Some question\<rparr>, \<lparr>role = assistant, content = a\<rparr>],
             c_updatedAt = now w\<rparr>]\<rparr>"
    by blast
  show ?thesis
    using q r askDispatch_answer[OF e3] unfolding calls d n s by blast
qed

text \<open>
  Alice's first question in the example store: the new conversation follows Bob's.
\<close>

theorem askQuestion_starts_conversation_witness:
  "status (res (askQuestion (configured OpenAI) calm (asks alice ''Why?'' None) archive)) = 200
   \<and> \<not> truthy (b_conversationId (asks alice ''Why?'' None))
   \<and> conversations (db (askQuestion (configured OpenAI) calm (asks alice ''Why?'' None) archive))
       = [bobsConversation,
          \<lparr>c_id = lit ''c2'', c_userId = alice, c_title = lit ''Why?'',
           c_messages = [turn user ''Why?'', turn assistant ''An answer''], c_updatedAt = 1000\<rparr>]"
proof -
  let ?out = "askQuestion (configured OpenAI) calm (asks alice ''Why?'' None) archive"
  have a: "status (res ?out) = 200"
    by (simp add: run_defs data_defs)
  have b: "\<not> truthy (b_conversationId (asks alice ''Why?'' None))"
    by (simp add: truthy_def asks_def)
  have r: "data (res ?out) = AskData \<lparr>d_question = Some (lit ''Why?''), d_answer = Some (lit ''An answer''),
      d_conversationId = Some (lit ''c2''), d_timestamp = 1000, d_provider = lit ''openai'',
      d_model = lit ''default''\<rparr>"
    by (simp add: run_defs data_defs)
  from askQuestion_starts_conversation[OF a b] obtain question answer where
    q: "b_question (asks alice ''Why?'' None) = Some question" and
    d: "db ?out = archive\<lparr>conversations := conversations archive @
         [\<lparr>c_id = newObjectId calm, c_userId = userId (asks alice ''Why?'' None),
           c_title = take 100 question,
           c_messages = [\<lparr>role = user, content = Some question\<rparr>, \<lparr>role = assistant, content = answer\<rparr>],
           c_updatedAt = now calm\<rparr>]\<rparr>" and
    e: "\<exists>d. data (res ?out) = AskData d \<and> d_answer d = answer \<and> d_conversationId d = Some (newObjectId calm)"
    by blast
  from q have q': "question = lit ''Why?''" by (simp add: asks_def)
  from e r have a': "answer = Some (lit ''An answer'')" by auto
  have "conversations (db ?out) = [bobsConversation,
          \<lparr>c_id = lit ''c2'', c_userId = alice, c_title = lit ''Why?'',
           c_messages = [turn user ''Why?'', turn assistant ''An answer''], c_updatedAt = 1000\<rparr>]"
    unfolding d q' a' by (simp add: archive_def calm_def asks_def turn_def lit_def)
  with a b show ?thesis by blast
qed

text \<open>
  When the provider variable is unset or exactly \<open>openai\<close>, \<open>anthropic\<close> or \<open>google\<close>, the
  answer saved and reported is the one the vendor returned to the request's single call.
  For any other value the dispatch calls no vendor and the answer is \<open>undefined\<close>.
\<close>

lemma askDispatch_answer_named:
  assumes "askDispatch w client up k t = (Inr a, ev)"
    and "orElse (AI_PROVIDER (env w)) (lit ''openai'') \<in> {lit ''openai'', lit ''anthropic'', lit ''google''}"
  shows "\<exists>call. vendorCalls ev = [call] \<and> vendor w call = Inr a"
  using assms by (auto simp: askDispatch_def Let_def split: if_splits dest!: invoke_answer)

lemma askDispatch_unnamed:
  assumes "orElse (AI_PROVIDER (env w)) (lit ''openai'') \<notin> {lit ''openai'', lit ''anthropic'', lit ''google''}"
  shows "askDispatch w client up k t = (Inr None, [])"
  using assms by (simp add: askDispatch_def Let_def)

lemma askQuestion_named_provider_answer:
  assumes "status (res (askQuestion this w req st)) = 200" and "\<not> truthy (b_conversationId req)"
    and "orElse (AI_PROVIDER (env w)) (lit ''openai'') \<in> {lit ''openai'', lit ''anthropic'', lit ''google''}"
  shows "\<exists>question answer call.
      b_question req = Some question
    \<and> db (askQuestion this w req st) = st\<lparr>conversations := conversations st @
         [\<lparr>c_id = newObjectId w, c_userId = userId req, c_title = take 100 question,
           c_messages = [\<lparr>role = user, content = Some question\<rparr>, \<lparr>role = assistant, content = answer\<rparr>],
           c_updatedAt = now w\<rparr>]\<rparr>
    \<and> vendorCalls (trace (askQuestion this w req st)) = [call] \<and> vendor w call = Inr answer
    \<and> (\<exists>d. data (res (askQuestion this w req st)) = AskData d \<and> d_answer d = answer)"
proof -
  from askQuestion_200[OF assms(1)] obtain client ec ev1 history ev2 a ev3 nid st' ev4 where
    e1: "(if b_includeEntries req = Some True then fetchEntryContext w st (userId req) else ([], [])) = (ec, ev1)"
    and e2: "loadHistory w st (userId req) (b_conversationId req) = (Inr history, ev2)"
    and e3: "askDispatch w client (askUserPrompt (b_question req) (b_context req) ec history)
          (case b_maxTokens req of None \<Rightarrow> 1000 | Some n \<Rightarrow> n)
          (case b_temperature req of None \<Rightarrow> 7 / 10 | Some t \<Rightarrow> t) = (Inr a, ev3)"
    and e4: "saveExchange w st req a = (Inr (nid, st'), ev4)"
    and d: "db (askQuestion this w req st) = st'"
    and t: "trace (askQuestion this w req st) = ev1 @ ev2 @ ev3 @ ev4"
    and r: "\<exists>d. data (res (askQuestion this w req st)) = AskData d \<and> d_answer d = a \<and> d_conversationId d = nid"
    by blast
  have q1: "vendorCalls ev1 = []"
    using e1 fetchEntryContext_quiet[of w st "userId req"] by (auto split: if_splits)
  have q2: "vendorCalls ev2 = []"
    using e2 loadHistory_quiet[of w st "userId req" "b_conversationId req"] by simp
  have q4: "vendorCalls ev4 = []"
    using e4 by (rule saveExchange_quiet')
  have calls: "vendorCalls (trace (askQuestion this w req st)) = vendorCalls ev3"
    by (simp add: t vendorCalls_append q1 q2 q4)
  from saveExchange_new[OF e4 assms(2)] obtain question where
    q: "b_question req = Some question"
    and s: "st' = st\<lparr>conversations := conversations st @
           [\<lparr>c_id = newObjectId w, c_userId = userId req, c_title = take 100 question,
             c_messages = [\<lparr>role = user, content = Some question\<rparr>, \<lparr>role = assistant, content = a\<rparr>],
             c_updatedAt = now w\<rparr>]\<rparr>"
    by blast
  show ?thesis
    using q r askDispatch_answer_named[OF e3 assms(3)] unfolding calls d s by blast
qed

text \<open>
  Claim C4 does not hold of the code. \<open>initializeAIService\<close> lowercases the provider
  variable, so \<open>OpenAI\<close> configures the OpenAI client, but the dispatch of \<open>askQuestion\<close>
  compares the variable as it is and has no final \<open>else\<close>: no vendor is called and
  \<open>aiResponse\<close> stays \<open>undefined\<close>. The request is still answered 200 and exactly one
  conversation is created, with the right owner, title and first message, but its second
  message, of role assistant, holds no generated answer.
\<close>

theorem askQuestion_miscased_provider_saves_no_answer:
  "newAIController (withProvider ''OpenAI'' calm) = configured OpenAI
   \<and> status (res (askQuestion (configured OpenAI) (withProvider ''OpenAI'' calm) (asks alice ''Why?'' None) archive)) = 200
   \<and> vendorCalls (trace (askQuestion (configured OpenAI) (withProvider ''OpenAI'' calm) (asks alice ''Why?'' None) archive)) = []
   \<and> data (res (askQuestion (configured OpenAI) (withProvider ''OpenAI'' calm) (asks alice ''Why?'' None) archive))
       = AskData \<lparr>d_question = Some (lit ''Why?''), d_answer = None, d_conversationId = Some (lit ''c2''),
                  d_timestamp = 1000, d_provider = lit ''OpenAI'', d_model = lit ''default''\<rparr>
   \<and> conversations (db (askQuestion (configured OpenAI) (withProvider ''OpenAI'' calm) (asks alice ''Why?'' None) archive))
       = [bobsConversation,
          \<lparr>c_id = lit ''c2'', c_userId = alice, c_title = lit ''Why?'',
           c_messages = [turn user ''Why?'', \<lparr>role = assistant, content = None\<rparr>], c_updatedAt = 1000\<rparr>]"
  by (simp add: run_defs data_defs newAIController_def initializeAIService_def toLowerCase_def)

section \<open>History replay\<close>

text \<open>
  Claim C7. When a request continues a conversation of the requesting user, whatever its
  length, the history in the user prompt of every vendor call is the last five messages of
  the conversation (all of them when there are fewer), in the conversation's order: a suffix
  of the message list of length \<open>min 5 n\<close>.
\<close>

theorem askQuestion_replays_last_five:
  assumes "call \<in> set (vendorCalls (trace (askQuestion this w req st)))"
    and "truthy (b_conversationId req)"
    and "Conversation_findOne st (interp (b_conversationId req)) (userId req) = Some conversation"
  shows "\<exists>entryContext history.
           promptOf call = AskPrompt (askUserPrompt (b_question req) (b_context req) entryContext history)
         \<and> suffix history (c_messages conversation)
         \<and> length history = min 5 (length (c_messages conversation))
         \<and> history = drop (length (c_messages conversation) - 5) (c_messages conversation)"
proof -
  from askQuestion_prompt[OF assms(1)] obtain history ev where
    h: "loadHistory w st (userId req) (b_conversationId req) = (Inr history, ev)" and
    p: "promptOf call = AskPrompt (askUserPrompt (b_question req) (b_context req)
           (fst (if b_includeEntries req = Some True then fetchEntryContext w st (userId req) else ([], []))) history)"
    by blast
  have d: "history = drop (length (c_messages conversation) - 5) (c_messages conversation)"
    using loadHistory_found[OF h assms(2) assms(3)] .
  have "suffix history (c_messages conversation)"
    unfolding d by (rule suffix_drop)
  moreover have "length history = min 5 (length (c_messages conversation))"
    unfolding d by simp
  ultimately show ?thesis using p d by blast
qed

text \<open>
  Bob continues his conversation of six messages: the first one is not replayed.
\<close>

theorem askQuestion_replays_last_five_witness:
  "bobsCall \<in> set (vendorCalls (trace (askQuestion (configured OpenAI) calm (asks bob ''Why?'' (Some (lit ''c1''))) archive)))
   \<and> truthy (b_conversationId (asks bob ''Why?'' (Some (lit ''c1''))))
   \<and> Conversation_findOne archive (lit ''c1'') bob = Some bobsConversation
   \<and> (\<exists>entryContext history.
         promptOf bobsCall = AskPrompt (askUserPrompt (Some (lit ''Why?'')) None entryContext history)
         \<and> history = [turn assistant ''a1'', turn user ''q2'', turn assistant ''a2'', turn user ''q3'', turn assistant ''a3''])"
proof -
  let ?req = "asks bob ''Why?'' (Some (lit ''c1''))"
  have a: "bobsCall \<in> set (vendorCalls (trace (askQuestion (configured OpenAI) calm ?req archive)))"
    by (simp add: bobsCall_def run_defs data_defs)
  have b: "truthy (b_conversationId ?req)"
    by (simp add: truthy_def asks_def lit_def)
  have c: "Conversation_findOne archive (interp (b_conversationId ?req)) (userId ?req) = Some bobsConversation"
    by (simp add: Conversation_findOne_def interp_def data_defs)
  have c': "Conversation_findOne archive (lit ''c1'') bob = Some bobsConversation"
    using c by (simp add: interp_def asks_def)
  from askQuestion_replays_last_five[OF a b c] obtain entryContext history where
    p: "promptOf bobsCall = AskPrompt (askUserPrompt (b_question ?req) (b_context ?req) entryContext history)"
    and h: "history = drop (length (c_messages bobsConversation) - 5) (c_messages bobsConversation)"
    by blast
  have "history = [turn assistant ''a1'', turn user ''q2'', turn assistant ''a2'', turn user ''q3'', turn assistant ''a3'']"
    unfolding h by (simp add: bobsConversation_def)
  moreover have "promptOf bobsCall = AskPrompt (askUserPrompt (Some (lit ''Why?'')) None entryContext history)"
    using p by (simp add: asks_def)
  ultimately show ?thesis using a b c' by blast
qed

section \<open>Reference context\<close>

lemma clip_lines: "entryContextLines i (clipEntry e) = entryContextLines i e"
  by (cases "e_culturalContext e")
     (simp_all add: entryContextLines_def clipEntry_def substring_def whenTruthy_def country_def)

lemma clip_enumerate:
  "map (\<lambda>(i, e). entryContextLines i e) (enumerate n (map clipEntry es))
     = map (\<lambda>(i, e). entryContextLines i e) (enumerate n es)"
  by (induction es arbitrary: n) (simp_all add: clip_lines)

lemma buildEntryContext_clip: "buildEntryContext (map clipEntry es) = buildEntryContext es"
  by (simp add: buildEntryContext_def clip_enumerate)

lemma Entry_find_published_own:
  "length (Entry_find_published st uid) \<le> 5 \<and>
   (\<forall>e\<in>set (Entry_find_published st uid).
      e \<in> set (entries st) \<and> e_author e = uid \<and> e_status e = lit ''published'')"
  by (auto simp: Entry_find_published_def dest: in_set_takeD)

text \<open>
  Claim C8. With \<open>includeEntries\<close> set, the entry context in the user prompt of every
  vendor call is built from at most five entries of the store, each written by the
  requesting user and published, and the block is the same as the one built from those
  entries cut to the first 200 code units of the description and the first 150 of the
  cultural context: nothing beyond those budgets reaches the prompt, however long the
  fields. The fetch itself returns at most five entries, all the user's own and published.
\<close>

theorem askQuestion_entry_context_budget:
  assumes "call \<in> set (vendorCalls (trace (askQuestion this w req st)))"
    and "b_includeEntries req = Some True"
  shows "(\<exists>userEntries history.
            promptOf call = AskPrompt (askUserPrompt (b_question req) (b_context req)
                                         (buildEntryContext (map clipEntry userEntries)) history)
          \<and> length userEntries \<le> 5
          \<and> (\<forall>e\<in>set userEntries.
                e \<in> set (entries st) \<and> e_author e = userId req \<and> e_status e = lit ''published''))
       \<and> length (Entry_find_published st (userId req)) \<le> 5
       \<and> (\<forall>e\<in>set (Entry_find_published st (userId req)).
             e \<in> set (entries st) \<and> e_author e = userId req \<and> e_status e = lit ''published'')
       \<and> (\<forall>es. buildEntryContext es = buildEntryContext (map clipEntry es))"
proof -
  from askQuestion_prompt[OF assms(1)] obtain history ev where
    p: "promptOf call = AskPrompt (askUserPrompt (b_question req) (b_context req)
           (fst (fetchEntryContext w st (userId req))) history)"
    using assms(2) by auto
  have "\<exists>userEntries history.
            promptOf call = AskPrompt (askUserPrompt (b_question req) (b_context req)
                                         (buildEntryContext (map clipEntry userEntries)) history)
          \<and> length userEntries \<le> 5
          \<and> (\<forall>e\<in>set userEntries.
                e \<in> set (entries st) \<and> e_author e = userId req \<and> e_status e = lit ''published'')"
  proof (cases "dbFault w (EntryFind (userId req))")
    case None
    then have "fst (fetchEntryContext w st (userId req))
                 = buildEntryContext (map clipEntry (Entry_find_published st (userId req)))"
      by (simp add: fetchEntryContext_def buildEntryContext_clip)
    with p Entry_find_published_own[of st "userId req"] show ?thesis by metis
  next
    case (Some entryError)
    then have "fst (fetchEntryContext w st (userId req)) = buildEntryContext (map clipEntry [])"
      by (simp add: fetchEntryContext_def buildEntryContext_def)
    with p show ?thesis by (intro exI[of _ "[]"] exI[of _ history]) simp
  qed
  with Entry_find_published_own[of st "userId req"] show ?thesis
    by (simp add: buildEntryContext_clip)
qed

text \<open>
  Alice asks with her entries included: the block is built from her one published entry.
\<close>

theorem askQuestion_entry_context_budget_witness:
  "alicesCall \<in> set (vendorCalls (trace (askQuestion (configured OpenAI) calm
        ((asks alice ''Why?'' None)\<lparr>b_includeEntries := Some True\<rparr>) archive)))
   \<and> b_includeEntries ((asks alice ''Why?'' None)\<lparr>b_includeEntries := Some True\<rparr>) = Some True
   \<and> (\<exists>userEntries history.
         promptOf alicesCall = AskPrompt (askUserPrompt (Some (lit ''Why?'')) None
                                           (buildEntryContext (map clipEntry userEntries)) history)
         \<and> length userEntries \<le> 5)"
proof -
  let ?req = "(asks alice ''Why?'' None)\<lparr>b_includeEntries := Some True\<rparr>"
  have a: "alicesCall \<in> set (vendorCalls (trace (askQuestion (configured OpenAI) calm ?req archive)))"
    by (simp add: alicesCall_def run_defs data_defs)
  have b: "b_includeEntries ?req = Some True"
    by simp
  from askQuestion_entry_context_budget[OF a b] obtain userEntries history where
    "promptOf alicesCall = AskPrompt (askUserPrompt (b_question ?req) (b_context ?req)
                                        (buildEntryContext (map clipEntry userEntries)) history)"
    and "length userEntries \<le> 5"
    by blast
  then have "\<exists>userEntries history.
         promptOf alicesCall = AskPrompt (askUserPrompt (Some (lit ''Why?'')) None
                                           (buildEntryContext (map clipEntry userEntries)) history)
         \<and> length userEntries \<le> 5"
    by (auto simp: asks_def)
  with a b show ?thesis by blast
qed

lemma buildEntryContext_loom:
  "buildEntryContext [loom] = [0x0A, 0x0A] @ lit ''Relevant cultural entries from your collection:'' @ [0x0A]
     @ lit ''1. Backstrap loom (Crafts)'' @ [0x0A]
     @ lit ''   Description: A loom...'' @ [0x0A]
     @ lit ''   Cultural Context: Weaving...'' @ [0x0A]
     @ lit ''   Location: Peru'' @ [0x0A]"
  by (simp add: buildEntryContext_def entryContextLines_def whenTruthy_def country_def substring_def loom_def lit_def enumerate_eq_zip)

section \<open>No provider configured\<close>

lemma getEntrySuggestions_unconfigured:
  assumes "aiService this = None"
  shows "db (getEntrySuggestions this w req st) = st"
    and "storeCalls (trace (getEntrySuggestions this w req st)) = [EntryFindById (param_id req)]"
    and "vendorCalls (trace (getEntrySuggestions this w req st)) = []"
    and "res (getEntrySuggestions this w req st) =
          (case dbFault w (EntryFindById (param_id req)) of
             Some error \<Rightarrow> failure 500 ''Internal server error while generating suggestions''
           | None \<Rightarrow>
               (case Entry_findById st (param_id req) of
                  None \<Rightarrow> failure 404 ''Cultural entry not found''
                | Some entry \<Rightarrow>
                    if canAccess (e_author entry) entry req
                    then failure 503 ''AI service not available''
                    else failure 403 ''Access denied to this entry''))"
  using assms
  by (simp_all add: getEntrySuggestions_def Let_def caught_simps storeCalls_caught vendorCalls_caught
        split: option.splits)

lemma analyze_unconfigured:
  assumes "aiService this = None"
  shows "db (analyzeCulturalSignificance this w req st) = st"
    and "storeCalls (trace (analyzeCulturalSignificance this w req st)) = [EntryFindByIdPopulate (param_id req)]"
    and "vendorCalls (trace (analyzeCulturalSignificance this w req st)) = []"
    and "res (analyzeCulturalSignificance this w req st) =
          (case dbFault w (EntryFindByIdPopulate (param_id req)) of
             Some error \<Rightarrow> failure 500 ''Internal server error while analyzing cultural significance''
           | None \<Rightarrow>
               (case Entry_findById_populate st (param_id req) of
                  None \<Rightarrow> failure 404 ''Cultural entry not found''
                | Some (entry, None) \<Rightarrow>
                    failure 500 ''Internal server error while analyzing cultural significance''
                | Some (entry, Some author) \<Rightarrow>
                    if canAccess (u_id author) entry req
                    then failure 503 ''AI service not available''
                    else failure 403 ''Access denied to this entry''))"
  using assms
  by (simp_all add: analyzeCulturalSignificance_def Let_def caught_simps storeCalls_caught vendorCalls_caught
        split: option.splits prod.splits)

text \<open>
  Claim C3, as the code has it. With no AI provider configured, \<open>askQuestion\<close> and
  \<open>generateTags\<close> answer 400 when validation failed and 503 otherwise, and make no store
  call at all. \<open>getEntrySuggestions\<close> and \<open>analyzeCulturalSignificance\<close> first read the
  entry by id: that is their one store call, a read, and they answer 500 when it rejects
  (or, for the analysis, when the entry's author no longer exists), 404 when there is no
  such entry, 403 when the requester may not access it, and 503 only otherwise. No endpoint
  changes the store or calls the vendor.
\<close>

theorem unconfigured_endpoints:
  assumes "aiService this = None"
  shows
   "askQuestion this w req st =
      \<lparr>res = (if validationErrors req \<noteq> []
              then \<lparr>status = 400, success = False, message = Some ''Validation failed'',
                    data = ValidationErrors (validationErrors req)\<rparr>
              else failure 503 ''AI service not available. Please check configuration.''),
       db = st, trace = []\<rparr>
    \<and> generateTags this w req st =
      \<lparr>res = (if validationErrors req \<noteq> []
              then \<lparr>status = 400, success = False, message = Some ''Validation failed'',
                    data = ValidationErrors (validationErrors req)\<rparr>
              else failure 503 ''AI service not available''),
       db = st, trace = []\<rparr>
    \<and> db (getEntrySuggestions this w req st) = st
    \<and> storeCalls (trace (getEntrySuggestions this w req st)) = [EntryFindById (param_id req)]
    \<and> vendorCalls (trace (getEntrySuggestions this w req st)) = []
    \<and> res (getEntrySuggestions this w req st) =
          (case dbFault w (EntryFindById (param_id req)) of
             Some error \<Rightarrow> failure 500 ''Internal server error while generating suggestions''
           | None \<Rightarrow>
               (case Entry_findById st (param_id req) of
                  None \<Rightarrow> failure 404 ''Cultural entry not found''
                | Some entry \<Rightarrow>
                    if canAccess (e_author entry) entry req
                    then failure 503 ''AI service not available''
                    else failure 403 ''Access denied to this entry''))
    \<and> db (analyzeCulturalSignificance this w req st) = st
    \<and> storeCalls (trace (analyzeCulturalSignificance this w req st)) = [EntryFindByIdPopulate (param_id req)]
    \<and> vendorCalls (trace (analyzeCulturalSignificance this w req st)) = []
    \<and> res (analyzeCulturalSignificance this w req st) =
          (case dbFault w (EntryFindByIdPopulate (param_id req)) of
             Some error \<Rightarrow> failure 500 ''Internal server error while analyzing cultural significance''
           | None \<Rightarrow>
               (case Entry_findById_populate st (param_id req) of
                  None \<Rightarrow> failure 404 ''Cultural entry not found''
                | Some (entry, None) \<Rightarrow>
                    failure 500 ''Internal server error while analyzing cultural significance''
                | Some (entry, Some author) \<Rightarrow>
                    if canAccess (u_id author) entry req
                    then failure 503 ''AI service not available''
                    else failure 403 ''Access denied to this entry''))"
proof -
  have a: "askQuestion this w req st =
      \<lparr>res = (if validationErrors req \<noteq> []
              then \<lparr>status = 400, success = False, message = Some ''Validation failed'',
                    data = ValidationErrors (validationErrors req)\<rparr>
              else failure 503 ''AI service not available. Please check configuration.''),
       db = st, trace = []\<rparr>"
    using assms by (simp add: askQuestion_def)
  have g: "generateTags this w req st =
      \<lparr>res = (if validationErrors req \<noteq> []
              then \<lparr>status = 400, success = False, message = Some ''Validation failed'',
                    data = ValidationErrors (validationErrors req)\<rparr>
              else failure 503 ''AI service not available''),
       db = st, trace = []\<rparr>"
    using assms by (simp add: generateTags_def Let_def)
  show ?thesis
    using a g getEntrySuggestions_unconfigured[OF assms, of w req st]
      analyze_unconfigured[OF assms, of w req st]
    by (intro conjI) assumption+
qed

text \<open>
  Alice asks for suggestions on her own entry with no provider configured.
\<close>

theorem unconfigured_endpoints_witness:
  "aiService unconfigured = None
   \<and> res (getEntrySuggestions unconfigured calm (visits alice ''e1'') archive)
       = failure 503 ''AI service not available''
   \<and> storeCalls (trace (getEntrySuggestions unconfigured calm (visits alice ''e1'') archive))
       = [EntryFindById (lit ''e1'')]
   \<and> askQuestion unconfigured calm (visits alice ''e1'') archive
       = \<lparr>res = failure 503 ''AI service not available. Please check configuration.'',
          db = archive, trace = []\<rparr>"
proof -
  have a: "aiService unconfigured = None"
    by (simp add: unconfigured_def)
  have e: "Entry_findById archive (lit ''e1'') = Some loom"
    by (simp add: Entry_findById_def archive_def loom_def)
  have c: "canAccess (e_author loom) loom (visits alice ''e1'')"
    by (simp add: canAccess_def loom_def visits_def asks_def)
  show ?thesis
    using unconfigured_endpoints[OF a, of calm "visits alice ''e1''" archive] a e c
    by (simp add: visits_def asks_def calm_def)
qed

text \<open>
  Claim C3 as stated fails: with no provider configured, \<open>getEntrySuggestions\<close> for an
  entry that does not exist answers 404, not 503, and for an entry that exists it answers
  503 only after reading the store.
\<close>

theorem unconfigured_endpoints_counterexample:
  "aiService unconfigured = None
   \<and> status (res (getEntrySuggestions unconfigured calm (visits alice ''e9'') archive)) = 404
   \<and> storeCalls (trace (getEntrySuggestions unconfigured calm (visits alice ''e9'') archive))
       = [EntryFindById (lit ''e9'')]
   \<and> status (res (getEntrySuggestions unconfigured calm (visits alice ''e1'') archive)) = 503
   \<and> storeCalls (trace (getEntrySuggestions unconfigured calm (visits alice ''e1'') archive))
       = [EntryFindById (lit ''e1'')]"
  by (simp add: shot_defs data_defs)

section \<open>The google provider and the single-shot endpoints\<close>

lemma singleShot_quiet_other:
  assumes "orElse (AI_PROVIDER (env w)) (lit ''openai'') \<noteq> lit ''openai''"
    and "orElse (AI_PROVIDER (env w)) (lit ''openai'') \<noteq> lit ''anthropic''"
  shows "singleShotDispatch w client m sys p k t = (Inr None, [])"
  using assms by (simp add: singleShotDispatch_def Let_def)

lemma google_not_openai: "lit ''google'' \<noteq> lit ''openai''" "lit ''google'' \<noteq> lit ''anthropic''" "lit ''google'' \<noteq> []"
  by (simp_all add: lit_def)

lemma singleShot_google:
  assumes "AI_PROVIDER (env w) = Some (lit ''google'')"
  shows "singleShotDispatch w client m sys p k t = (Inr None, [])"
  using assms google_not_openai by (intro singleShot_quiet_other) (simp_all add: orElse_def)

lemma generateTags_google:
  assumes "AI_PROVIDER (env w) = Some (lit ''google'')"
  shows "generateTags this w req st =
     (if validationErrors req \<noteq> []
      then \<lparr>res = \<lparr>status = 400, success = False, message = Some ''Validation failed'',
                   data = ValidationErrors (validationErrors req)\<rparr>, db = st, trace = []\<rparr>
      else if aiService this = None
      then \<lparr>res = failure 503 ''AI service not available'', db = st, trace = []\<rparr>
      else \<lparr>res = failure 500 ''Internal server error while generating tags'', db = st,
            trace = [ConsoleError ''Generate tags error:''
                       (typeError ''Cannot read properties of undefined (reading 'split')'')]\<rparr>)"
  by (auto simp: generateTags_def Let_def singleShot_google[OF assms] caught_def split: option.splits)

lemma initialize_google:
  assumes "AI_PROVIDER (env w) = Some (lit ''google'')" and "sdkLoads w GoogleGenerativeAI"
  shows "initializeAIService w = Some GoogleGenerativeAI"
  using assms by (simp add: initializeAIService_def orElse_def toLowerCase_def lit_def)

text \<open>
  Claim C9. With \<open>AI_PROVIDER\<close> set to \<open>google\<close>, \<open>generateTags\<close> never answers 200 and
  never returns a tag list, whatever the request, and never calls the vendor: a request that
  passes validation with a client configured ends in the 500 response of the handler's
  \<open>catch\<close>, since no branch of the dispatch matches and splitting the undefined text
  throws. When the google SDK loads, the controller built at start-up has a client, the
  status endpoint reports the service and \<open>tagGeneration\<close> as available, and every valid
  tag request to that controller ends in 500. Likewise the dispatches of
  \<open>getEntrySuggestions\<close> and \<open>analyzeCulturalSignificance\<close> have no google branch: any
  suggestions or analysis they return is \<open>undefined\<close>.
\<close>

theorem generateTags_google_never_tags:
  assumes "AI_PROVIDER (env w) = Some (lit ''google'')"
  shows "status (res (generateTags this w req st)) \<noteq> 200
       \<and> (\<forall>tags n t. data (res (generateTags this w req st)) \<noteq> TagsData tags n t)
       \<and> vendorCalls (trace (generateTags this w req st)) = []
       \<and> (validationErrors req = [] \<and> aiService this \<noteq> None \<longrightarrow>
            res (generateTags this w req st) = failure 500 ''Internal server error while generating tags'')
       \<and> (sdkLoads w GoogleGenerativeAI \<longrightarrow>
            aiService (newAIController w) = Some GoogleGenerativeAI
            \<and> getServiceStatus (newAIController w) w
                  = ok (StatusData \<lparr>available = True, provider = lit ''google'', model = modelName (env w),
                          questionsAndAnswers = True, conversationHistory = True,
                          entrySuggestions = True, tagGeneration = True, culturalAnalysis = True\<rparr>)
            \<and> (validationErrors req = [] \<longrightarrow>
                  res (generateTags (newAIController w) w req st)
                    = failure 500 ''Internal server error while generating tags''))
       \<and> (\<forall>i title text t. data (res (getEntrySuggestions this w req st)) = SuggestionsData i title text t
             \<longrightarrow> text = None)
       \<and> (\<forall>i title text t. data (res (analyzeCulturalSignificance this w req st)) = AnalysisData i title text t
             \<longrightarrow> text = None)"
proof -
  note g = generateTags_google[OF assms]
  have 1: "status (res (generateTags this w req st)) \<noteq> 200"
    by (simp add: g failure_def)
  have 2: "\<forall>tags n t. data (res (generateTags this w req st)) \<noteq> TagsData tags n t"
    by (simp add: g failure_def)
  have 3: "vendorCalls (trace (generateTags this w req st)) = []"
    by (simp add: g)
  have 4: "validationErrors req = [] \<and> aiService this \<noteq> None \<longrightarrow>
            res (generateTags this w req st) = failure 500 ''Internal server error while generating tags''"
    by (simp add: g)
  have 5: "sdkLoads w GoogleGenerativeAI \<longrightarrow>
            aiService (newAIController w) = Some GoogleGenerativeAI
            \<and> getServiceStatus (newAIController w) w
                  = ok (StatusData \<lparr>available = True, provider = lit ''google'', model = modelName (env w),
                          questionsAndAnswers = True, conversationHistory = True,
                          entrySuggestions = True, tagGeneration = True, culturalAnalysis = True\<rparr>)
            \<and> (validationErrors req = [] \<longrightarrow>
                  res (generateTags (newAIController w) w req st)
                    = failure 500 ''Internal server error while generating tags'')"
  proof
    assume l: "sdkLoads w GoogleGenerativeAI"
    have s: "aiService (newAIController w) = Some GoogleGenerativeAI"
      by (simp add: newAIController_def initialize_google[OF assms l])
    have "getServiceStatus (newAIController w) w
                  = ok (StatusData \<lparr>available = True, provider = lit ''google'', model = modelName (env w),
                          questionsAndAnswers = True, conversationHistory = True,
                          entrySuggestions = True, tagGeneration = True, culturalAnalysis = True\<rparr>)"
      using assms google_not_openai by (simp add: getServiceStatus_def s orElse_def)
    moreover have "validationErrors req = [] \<longrightarrow>
                  res (generateTags (newAIController w) w req st)
                    = failure 500 ''Internal server error while generating tags''"
      by (simp add: generateTags_google[OF assms] s)
    ultimately show "aiService (newAIController w) = Some GoogleGenerativeAI
            \<and> getServiceStatus (newAIController w) w
                  = ok (StatusData \<lparr>available = True, provider = lit ''google'', model = modelName (env w),
                          questionsAndAnswers = True, conversationHistory = True,
                          entrySuggestions = True, tagGeneration = True, culturalAnalysis = True\<rparr>)
            \<and> (validationErrors req = [] \<longrightarrow>
                  res (generateTags (newAIController w) w req st)
                    = failure 500 ''Internal server error while generating tags'')"
      using s by blast
  qed
  have 6: "\<forall>i title text t. data (res (getEntrySuggestions this w req st)) = SuggestionsData i title text t
             \<longrightarrow> text = None"
    by (auto simp: getEntrySuggestions_def Let_def singleShot_google[OF assms] caught_def failure_def ok_def
             split: option.splits if_splits)
  have 7: "\<forall>i title text t. data (res (analyzeCulturalSignificance this w req st)) = AnalysisData i title text t
             \<longrightarrow> text = None"
    by (auto simp: analyzeCulturalSignificance_def Let_def singleShot_google[OF assms] caught_def failure_def ok_def
             split: option.splits if_splits prod.splits)
  from 1 2 3 4 5 6 7 show ?thesis by blast
qed

text \<open>
  The example world with the provider set to google.
\<close>

theorem generateTags_google_never_tags_witness:
  "AI_PROVIDER (env (withProvider ''google'' calm)) = Some (lit ''google'')
   \<and> newAIController (withProvider ''google'' calm) = configured GoogleGenerativeAI
   \<and> res (generateTags (configured GoogleGenerativeAI) (withProvider ''google'' calm) tagging archive)
       = failure 500 ''Internal server error while generating tags''
   \<and> tagGeneration
        \<lparr>available = True, provider = lit ''google'', model = lit ''default'',
         questionsAndAnswers = True, conversationHistory = True, entrySuggestions = True,
         tagGeneration = True, culturalAnalysis = True\<rparr>
   \<and> getServiceStatus (configured GoogleGenerativeAI) (withProvider ''google'' calm)
       = ok (StatusData
              \<lparr>available = True, provider = lit ''google'', model = lit ''default'',
               questionsAndAnswers = True, conversationHistory = True, entrySuggestions = True,
               tagGeneration = True, culturalAnalysis = True\<rparr>)"
proof -
  let ?w = "withProvider ''google'' calm"
  have a: "AI_PROVIDER (env ?w) = Some (lit ''google'')"
    by (simp add: withProvider_def)
  have l: "sdkLoads ?w GoogleGenerativeAI"
    by (simp add: withProvider_def calm_def)
  have v: "validationErrors tagging = []"
    by (simp add: tagging_def asks_def)
  have m: "modelName (env ?w) = lit ''default''"
    by (simp add: modelName_def orElse_def withProvider_def calm_def)
  note t = generateTags_google_never_tags[OF a, of "configured GoogleGenerativeAI" tagging archive]
  from t l have c: "aiService (newAIController ?w) = Some GoogleGenerativeAI" by blast
  then have c': "newAIController ?w = configured GoogleGenerativeAI"
    by (cases "newAIController ?w") (simp add: configured_def)
  from t a l v m c' show ?thesis
    by (simp add: configured_def)
qed

section \<open>Conversations of other users\<close>

lemma find_own:
  "find (\<lambda>c. c_id c = i \<and> c_userId c = uid) (filter (\<lambda>c. c_userId c = uid) cs)
     = find (\<lambda>c. c_id c = i \<and> c_userId c = uid) cs"
  by (induction cs) auto

lemma Conversation_findOne_own:
  "Conversation_findOne st i uid = find (\<lambda>c. c_id c = i \<and> c_userId c = uid) (ownConversations st uid)"
  by (simp add: Conversation_findOne_def ownConversations_def find_own)

lemma removeFirst_absent: "find p xs = None \<Longrightarrow> removeFirst p xs = xs"
  by (induction xs) (auto split: if_splits)

lemma foreign_not_found:
  assumes "\<forall>c\<in>set (conversations st). c_id c = i \<longrightarrow> c_userId c \<noteq> uid"
  shows "find (\<lambda>c. c_id c = i \<and> c_userId c = uid) (conversations st) = None"
  using assms by (auto simp: find_None_iff)

lemma getConversationById_res:
  "res (getConversationById w req st) =
     (case dbFault w (ConversationFindOne (param_id req) (userId req)) of
        Some error \<Rightarrow> failure 500 ''Internal server error while fetching conversation''
      | None \<Rightarrow>
          (case find (\<lambda>c. c_id c = param_id req \<and> c_userId c = userId req) (ownConversations st (userId req)) of
             None \<Rightarrow> failure 404 ''Conversation not found''
           | Some conversation \<Rightarrow> ok (ConversationData conversation)))"
  by (simp add: getConversationById_def Let_def caught_simps Conversation_findOne_own[symmetric]
        split: option.splits)

lemma deleteConversation_res:
  "res (deleteConversation w req st) =
     (case dbFault w (ConversationFindOneAndDelete (param_id req) (userId req)) of
        Some error \<Rightarrow> failure 500 ''Internal server error while deleting conversation''
      | None \<Rightarrow>
          (case find (\<lambda>c. c_id c = param_id req \<and> c_userId c = userId req) (ownConversations st (userId req)) of
             None \<Rightarrow> failure 404 ''Conversation not found''
           | Some conversation \<Rightarrow>
               \<lparr>status = 200, success = True, message = Some ''Conversation deleted successfully'',
                data = NoData\<rparr>))"
  by (simp add: deleteConversation_def Let_def caught_simps Conversation_findOneAndDelete_def
        ownConversations_def find_own split: option.splits)

lemma deleteConversation_404:
  assumes "status (res (deleteConversation w req st)) = 404"
  shows "db (deleteConversation w req st) = st"
  using assms
  by (auto simp: deleteConversation_def Let_def caught_def failure_def Conversation_findOneAndDelete_def
        removeFirst_absent split: option.splits)

text \<open>
  Claim C10. The responses of \<open>getConversationById\<close> and \<open>deleteConversation\<close> depend on
  the store only through the requester's own conversations: two stores that differ in other
  users' conversations alone (so that an id is absent in one and owned by someone else in
  the other) get the same response. When every conversation with the requested id, if there
  is one, belongs to someone else, and the store call does not reject, both answer 404
  \<open>Conversation not found\<close>, and the delete leaves the store as it was; the delete leaves
  the store unchanged whenever it answers 404, and the read always does.
\<close>

theorem foreign_conversation_looks_absent:
  "(ownConversations st1 (userId req) = ownConversations st2 (userId req) \<longrightarrow>
      res (getConversationById w req st1) = res (getConversationById w req st2)
      \<and> res (deleteConversation w req st1) = res (deleteConversation w req st2))
   \<and> ((\<forall>c\<in>set (conversations st). c_id c = param_id req \<longrightarrow> c_userId c \<noteq> userId req)
        \<and> dbFault w (ConversationFindOne (param_id req) (userId req)) = None \<longrightarrow>
      res (getConversationById w req st) = failure 404 ''Conversation not found'')
   \<and> ((\<forall>c\<in>set (conversations st). c_id c = param_id req \<longrightarrow> c_userId c \<noteq> userId req)
        \<and> dbFault w (ConversationFindOneAndDelete (param_id req) (userId req)) = None \<longrightarrow>
      res (deleteConversation w req st) = failure 404 ''Conversation not found''
      \<and> db (deleteConversation w req st) = st)
   \<and> (status (res (deleteConversation w req st)) = 404 \<longrightarrow> db (deleteConversation w req st) = st)
   \<and> db (getConversationById w req st) = st"
proof -
  have same: "ownConversations st1 (userId req) = ownConversations st2 (userId req) \<longrightarrow>
      res (getConversationById w req st1) = res (getConversationById w req st2)
      \<and> res (deleteConversation w req st1) = res (deleteConversation w req st2)"
  proof
    assume "ownConversations st1 (userId req) = ownConversations st2 (userId req)"
    then show "res (getConversationById w req st1) = res (getConversationById w req st2)
      \<and> res (deleteConversation w req st1) = res (deleteConversation w req st2)"
      by (simp only: getConversationById_res deleteConversation_res)
  qed
  have get404: "(\<forall>c\<in>set (conversations st). c_id c = param_id req \<longrightarrow> c_userId c \<noteq> userId req)
        \<and> dbFault w (ConversationFindOne (param_id req) (userId req)) = None \<longrightarrow>
      res (getConversationById w req st) = failure 404 ''Conversation not found''"
    using foreign_not_found[of st "param_id req" "userId req"]
    by (simp add: getConversationById_def Let_def Conversation_findOne_def)
  have del404: "(\<forall>c\<in>set (conversations st). c_id c = param_id req \<longrightarrow> c_userId c \<noteq> userId req)
        \<and> dbFault w (ConversationFindOneAndDelete (param_id req) (userId req)) = None \<longrightarrow>
      res (deleteConversation w req st) = failure 404 ''Conversation not found''
      \<and> db (deleteConversation w req st) = st"
    using foreign_not_found[of st "param_id req" "userId req"]
    by (simp add: deleteConversation_def Let_def Conversation_findOneAndDelete_def removeFirst_absent)
  have keep: "status (res (deleteConversation w req st)) = 404 \<longrightarrow> db (deleteConversation w req st) = st"
    using deleteConversation_404 by blast
  have get: "db (getConversationById w req st) = st"
    by (simp add: getConversationById_def Let_def caught_simps split: option.splits)
  from same get404 del404 keep get show ?thesis by blast
qed

text \<open>
  Alice asks for Bob's conversation, in the example store and in a store without it.
\<close>

theorem foreign_conversation_looks_absent_witness:
  "ownConversations archive alice = ownConversations (archive\<lparr>conversations := []\<rparr>) alice
   \<and> Conversation_findOne archive (lit ''c1'') bob = Some bobsConversation
   \<and> res (getConversationById calm (visits alice ''c1'') archive) = failure 404 ''Conversation not found''
   \<and> res (getConversationById calm (visits alice ''c1'') (archive\<lparr>conversations := []\<rparr>))
       = failure 404 ''Conversation not found''
   \<and> res (deleteConversation calm (visits alice ''c1'') archive) = failure 404 ''Conversation not found''
   \<and> res (deleteConversation calm (visits alice ''c1'') (archive\<lparr>conversations := []\<rparr>))
       = failure 404 ''Conversation not found''
   \<and> db (deleteConversation calm (visits alice ''c1'') archive) = archive"
proof -
  let ?req = "visits alice ''c1''"
  let ?empty = "archive\<lparr>conversations := []\<rparr>"
  have u: "userId ?req = alice" and p: "param_id ?req = lit ''c1''"
    by (simp_all add: visits_def asks_def)
  have own: "ownConversations archive (userId ?req) = ownConversations ?empty (userId ?req)"
    by (simp add: u ownConversations_def data_defs)
  have foreign: "\<forall>c\<in>set (conversations archive). c_id c = param_id ?req \<longrightarrow> c_userId c \<noteq> userId ?req"
    by (simp add: u data_defs)
  have absent: "\<forall>c\<in>set (conversations ?empty). c_id c = param_id ?req \<longrightarrow> c_userId c \<noteq> userId ?req"
    by simp
  have up: "dbFault calm (ConversationFindOne (param_id ?req) (userId ?req)) = None"
    "dbFault calm (ConversationFindOneAndDelete (param_id ?req) (userId ?req)) = None"
    by (simp_all add: calm_def)
  have bobs: "Conversation_findOne archive (lit ''c1'') bob = Some bobsConversation"
    by (simp add: Conversation_findOne_def data_defs)
  note t1 = foreign_conversation_looks_absent[of archive ?req ?empty calm archive]
  note t2 = foreign_conversation_looks_absent[of archive ?req ?empty calm ?empty]
  from t1 t2 own foreign absent up bobs show ?thesis
    unfolding u by blast
qed

section \<open>Where the code departs from the specification\<close>

lemma saveExchange_continue:
  assumes "saveExchange w st req a = (Inr (nid, st'), ev)" and "truthy (b_conversationId req)"
  shows "nid = b_conversationId req
       \<and> st' = Conversation_findByIdAndUpdate st (interp (b_conversationId req))
                 (exchange (b_question req) a) (now w)"
  using assms by (auto simp: saveExchange_def Let_def split: option.splits)

lemma updateFirst_foreign:
  assumes "c \<in> set cs" and "c_id c = i" and "distinct (map c_id cs)"
  shows "c\<lparr>c_messages := c_messages c @ ms, c_updatedAt := t\<rparr>
           \<in> set (updateFirst (\<lambda>c. c_id c = i) (\<lambda>c. c\<lparr>c_messages := c_messages c @ ms, c_updatedAt := t\<rparr>) cs)"
  using assms by (induction cs) auto

text \<open>
  A continuation answered with 200 updates the conversation with the given id without
  looking at its owner: the exchange is appended to it whoever owns it.
\<close>

lemma askQuestion_continue_updates_by_id:
  assumes "status (res (askQuestion this w req st)) = 200" and "truthy (b_conversationId req)"
  shows "\<exists>answer. db (askQuestion this w req st)
           = Conversation_findByIdAndUpdate st (interp (b_conversationId req))
               (exchange (b_question req) answer) (now w)"
proof -
  from askQuestion_200[OF assms(1)] obtain a nid st' ev4 where
    "saveExchange w st req a = (Inr (nid, st'), ev4)" and "db (askQuestion this w req st) = st'"
    by blast
  with saveExchange_continue[OF _ assms(2)] show ?thesis by blast
qed

lemma askQuestion_continue_appends:
  assumes "status (res (askQuestion this w req st)) = 200" and "truthy (b_conversationId req)"
    and "c \<in> set (conversations st)" and "c_id c = interp (b_conversationId req)"
    and "distinct (map c_id (conversations st))"
  shows "\<exists>answer. c\<lparr>c_messages := c_messages c @ exchange (b_question req) answer, c_updatedAt := now w\<rparr>
           \<in> set (conversations (db (askQuestion this w req st)))"
proof -
  from askQuestion_continue_updates_by_id[OF assms(1,2)] obtain answer where
    "db (askQuestion this w req st)
       = Conversation_findByIdAndUpdate st (interp (b_conversationId req))
           (exchange (b_question req) answer) (now w)"
    by blast
  then show ?thesis
    using updateFirst_foreign[OF assms(3,4,5)]
    by (auto simp: Conversation_findByIdAndUpdate_def)
qed

text \<open>
  Claim C1 does not hold of the code. Alice continues with the id of Bob's conversation:
  the history lookup filters by owner, so nothing of Bob's conversation is replayed (the
  prompt has no history), but the update is by id alone, so Alice's question and the answer
  are appended to Bob's conversation and its update time is set. With the id absent, a new
  conversation of Alice's is created instead and Bob's is untouched.
\<close>

theorem askQuestion_appends_to_foreign_conversation:
  "c_userId bobsConversation = bob \<and> alice \<noteq> bob
   \<and> status (res (askQuestion (configured OpenAI) calm (asks alice ''Why?'' (Some (lit ''c1''))) archive)) = 200
   \<and> vendorCalls (trace (askQuestion (configured OpenAI) calm (asks alice ''Why?'' (Some (lit ''c1''))) archive))
       = [ChatCompletionsCreate (lit ''gpt-3.5-turbo'') HeritageAssistant
            (AskPrompt (askUserPrompt (Some (lit ''Why?'')) None [] [])) 1000 (7 / 10)]
   \<and> conversations (db (askQuestion (configured OpenAI) calm (asks alice ''Why?'' (Some (lit ''c1''))) archive))
       = [bobsConversation
            \<lparr>c_messages := c_messages bobsConversation @ [turn user ''Why?'', turn assistant ''An answer''],
             c_updatedAt := 1000\<rparr>]
   \<and> conversations (db (askQuestion (configured OpenAI) calm (asks alice ''Why?'' None) archive))
       = [bobsConversation,
          \<lparr>c_id = lit ''c2'', c_userId = alice, c_title = lit ''Why?'',
           c_messages = [turn user ''Why?'', turn assistant ''An answer''], c_updatedAt = 1000\<rparr>]"
  by (simp add: run_defs data_defs)

text \<open>The status the \<open>catch\<close> block answers with, and the error detail of its 500 response.\<close>

lemma askErrorResponse_status:
  "status (askErrorResponse e error) =
     (if err_status error = Some 429 \<or> err_code error = Some (lit ''insufficient_quota'') then 503
      else if err_code error = Some (lit ''rate_limit_exceeded'') then 429
      else if err_code error = Some (lit ''context_length_exceeded'') then 400
      else 500)"
  by (auto simp: askErrorResponse_def failure_def)

lemma askErrorResponse_suppressed:
  assumes "status (askErrorResponse e error) = 500"
  shows "data (askErrorResponse e error)
           = ErrorDetail (if NODE_ENV e = Some (lit ''development'') then err_message error else None)"
  using assms by (auto simp: askErrorResponse_def failure_def split: if_splits)

text \<open>
  Claim C5 does not hold of the code. The first test of the \<open>catch\<close> block already
  accepts any error of status 429, so a rate-limit error as the vendor raises it (code
  \<open>rate_limit_exceeded\<close>, status 429) is answered 503 with the quota message; the 429
  response is reached only by an error with that code and another status.
\<close>

theorem askQuestion_rate_limit_answers_503:
  "err_code rateLimitError = Some (lit ''rate_limit_exceeded'') \<and> err_status rateLimitError = Some 429
   \<and> askErrorResponse (env calm) rateLimitError
       = failure 503 ''AI service quota exceeded. Please try again later.''
   \<and> res (askQuestion (configured OpenAI) (calm\<lparr>vendor := \<lambda>call. Inl rateLimitError\<rparr>)
             (asks alice ''Why?'' None) archive)
       = failure 503 ''AI service quota exceeded. Please try again later.''
   \<and> askErrorResponse (env calm) (rateLimitError\<lparr>err_status := None\<rparr>)
       = failure 429 ''Too many requests. Please wait before trying again.''"
  by (simp add: run_defs data_defs)

text \<open>
  A rejected entry lookup leaves an empty context and a warning; a rejected history lookup
  ends the request with the response of the \<open>catch\<close> block, before any vendor call.
\<close>

lemma askQuestion_entry_fault:
  assumes "dbFault w (EntryFind uid) = Some error"
  shows "fetchEntryContext w st uid
           = ([], [Db (EntryFind uid), ConsoleWarn ''Failed to fetch user entries for context:'' error])"
  using assms by (simp add: fetchEntryContext_def)

lemma askQuestion_history_fault:
  assumes "validationErrors req = []" and "aiService this = Some client"
    and "truthy (b_conversationId req)"
    and "dbFault w (ConversationFindOne (interp (b_conversationId req)) (userId req)) = Some error"
  shows "res (askQuestion this w req st) = askErrorResponse (env w) error
       \<and> db (askQuestion this w req st) = st
       \<and> vendorCalls (trace (askQuestion this w req st)) = []"
proof -
  obtain ec ev1 where e1: "(if b_includeEntries req = Some True then fetchEntryContext w st (userId req) else ([], [])) = (ec, ev1)"
    by (cases "(if b_includeEntries req = Some True then fetchEntryContext w st (userId req) else ([], []))")
  have q1: "vendorCalls ev1 = []"
    using e1 fetchEntryContext_quiet[of w st "userId req"] by (auto split: if_splits)
  have h: "loadHistory w st (userId req) (b_conversationId req)
             = (Inl error, [Db (ConversationFindOne (interp (b_conversationId req)) (userId req))])"
    using assms(3,4) by (simp add: loadHistory_def Let_def)
  show ?thesis
    using assms(1,2) q1 unfolding askQuestion_def Let_def e1 h
    by (simp add: askCatch_def vendorCalls_append)
qed

text \<open>
  Claim C6 does not hold of the code. The history lookup is not guarded: when it rejects,
  the request ends in the 500 response of the \<open>catch\<close> block and the vendor is never
  called. The entry lookup is guarded: when it rejects, the error is logged, the entry
  context is empty and the request goes on to the vendor call and is answered 200.
\<close>

theorem askQuestion_history_lookup_error_fails:
  "res (askQuestion (configured OpenAI) (calm\<lparr>dbFault := lookupsReject\<rparr>)
          (asks bob ''Why?'' (Some (lit ''c1''))) archive)
     = \<lparr>status = 500, success = False,
        message = Some ''Internal server error while processing AI request'', data = ErrorDetail None\<rparr>
   \<and> vendorCalls (trace (askQuestion (configured OpenAI) (calm\<lparr>dbFault := lookupsReject\<rparr>)
          (asks bob ''Why?'' (Some (lit ''c1''))) archive)) = []
   \<and> status (res (askQuestion (configured OpenAI) (calm\<lparr>dbFault := lookupsReject\<rparr>)
          ((asks bob ''Why?'' None)\<lparr>b_includeEntries := Some True\<rparr>) archive)) = 200
   \<and> trace (askQuestion (configured OpenAI) (calm\<lparr>dbFault := lookupsReject\<rparr>)
          ((asks bob ''Why?'' None)\<lparr>b_includeEntries := Some True\<rparr>) archive)
       = [Db (EntryFind bob),
          ConsoleWarn ''Failed to fetch user entries for context:'' connectionLost,
          Generate (ChatCompletionsCreate (lit ''gpt-3.5-turbo'') HeritageAssistant
            (AskPrompt (askUserPrompt (Some (lit ''Why?'')) None [] [])) 1000 (7 / 10)),
          Db (ConversationSave
            \<lparr>c_id = lit ''c2'', c_userId = bob, c_title = lit ''Why?'',
             c_messages = [turn user ''Why?'', turn assistant ''An answer''], c_updatedAt = 1000\<rparr>)]"
  by (simp add: run_defs data_defs)

end
